theory Spec2Isabelle
  imports Main
begin

section \<open>Status codes\<close>

text \<open>
  Modelled from the spec: the statuses OK, EOF, RETRY, WARN and FATAL of the external
  archive abstraction. The wrapper includes them from libarchive's \<^verbatim>\<open>archive.h\<close>, which
  is not among the sources; the numbers are the ones libarchive's public header gives
  them. The wrapper only compares statuses with these names and with \<open><\<close>.
\<close>

definition ARCHIVE_EOF :: int where "ARCHIVE_EOF = 1"
definition ARCHIVE_OK :: int where "ARCHIVE_OK = 0"
definition ARCHIVE_RETRY :: int where "ARCHIVE_RETRY = - 10"
definition ARCHIVE_WARN :: int where "ARCHIVE_WARN = - 20"
definition ARCHIVE_FATAL :: int where "ARCHIVE_FATAL = - 30"

text \<open>The wrapper's own result codes (\<^verbatim>\<open>libarchive_wrapper.c\<close>, lines 147 to 162).\<close>

definition SUCCESS :: int where "SUCCESS = 0"
definition ERROR_CREATE_ARCHIVE_FAILED :: int where "ERROR_CREATE_ARCHIVE_FAILED = - 1"
definition ERROR_OPEN_FILE_FAILED :: int where "ERROR_OPEN_FILE_FAILED = - 2"
definition ERROR_READ_ENTRY_FAILED :: int where "ERROR_READ_ENTRY_FAILED = - 3"
definition ERROR_EXTRACT_FAILED :: int where "ERROR_EXTRACT_FAILED = - 4"
definition ERROR_COMPRESS_FAILED :: int where "ERROR_COMPRESS_FAILED = - 5"
definition ERROR_PASSWORD_REQUIRED :: int where "ERROR_PASSWORD_REQUIRED = - 6"
definition ERROR_WRONG_PASSWORD :: int where "ERROR_WRONG_PASSWORD = - 7"
definition ERROR_UNSUPPORTED_FORMAT :: int where "ERROR_UNSUPPORTED_FORMAT = - 8"
definition ERROR_OPERATION_CANCELLED :: int where "ERROR_OPERATION_CANCELLED = - 9"

definition ENCRYPTION_NONE :: int where "ENCRYPTION_NONE = 0"
definition ENCRYPTION_PRESENT :: int where "ENCRYPTION_PRESENT = 1"

section \<open>Data\<close>

text \<open>
  An archive entry as the wrapper sees it: the fields it sets when it writes one
  (pathname, size, mode, mtime, file type) and the two it reads when it extracts one
  (size and the encrypted flag). A fresh entry is not encrypted.
\<close>

record archive_entry =
  pathname :: string
  e_size :: int
  e_mode :: nat
  e_mtime :: int
  e_filetype :: nat
  is_encrypted :: bool

text \<open>
  Modelled from the spec: the entry types regular-file and directory. The wrapper takes
  \<^verbatim>\<open>AE_IFREG\<close> and \<^verbatim>\<open>AE_IFDIR\<close> from libarchive's \<^verbatim>\<open>archive_entry.h\<close> and the tests
  \<^verbatim>\<open>S_ISDIR\<close> and \<^verbatim>\<open>S_ISREG\<close> from the system's \<^verbatim>\<open>sys/stat.h\<close>; both read the file-type
  bits of a mode (octal 0170000), where a directory is 0040000 and a regular file is
  0100000.
\<close>

definition AE_IFREG :: nat where "AE_IFREG = 32768"
definition AE_IFDIR :: nat where "AE_IFDIR = 16384"

text \<open>The fields of \<^verbatim>\<open>struct stat\<close> the wrapper reads, and the two type tests on the mode.\<close>

record stat =
  st_mode :: nat
  st_size :: int
  st_mtime :: int

definition S_ISDIR :: "nat \<Rightarrow> bool" where
  "S_ISDIR m = ((m div 4096) mod 16 = 4)"

definition S_ISREG :: "nat \<Rightarrow> bool" where
  "S_ISREG m = ((m div 4096) mod 16 = 8)"

text \<open>
  One answer of \<^verbatim>\<open>archive_read_data_block\<close>: its status and the block (bytes and offset)
  it hands out.
\<close>

record data_block =
  r_status :: int
  buff :: string
  offset :: int

text \<open>
  One answer of \<^verbatim>\<open>archive_read_next_header\<close>: its status, the entry the pointer refers to
  afterwards, and what the reader then has to give for that entry's data.
\<close>

record header =
  h_status :: int
  h_entry :: archive_entry
  h_blocks :: "data_block list"

datatype wformat = Zip | PaxRestricted | SevenZip | Raw

datatype extract_flag =
  ARCHIVE_EXTRACT_TIME | ARCHIVE_EXTRACT_PERM | ARCHIVE_EXTRACT_ACL | ARCHIVE_EXTRACT_FFLAGS

datatype wfilter = Gzip | Bzip2 | Xz

text \<open>
  What a run does to the world outside, in the order it happens: every library or system
  call that creates, opens, changes or releases an archive session or touches the file
  system, and every line written to the error log (its text rendered in English, without
  the library's error string). A call is recorded whether it succeeds or not. Calls
  that only read (\<^verbatim>\<open>stat\<close>, \<^verbatim>\<open>getcwd\<close>, \<^verbatim>\<open>opendir\<close>, \<^verbatim>\<open>readdir\<close>, \<^verbatim>\<open>fopen\<close> for reading,
  \<^verbatim>\<open>fread\<close>, reading a header or a block) and the release of what they opened
  (\<^verbatim>\<open>closedir\<close>, \<^verbatim>\<open>fclose\<close>, \<^verbatim>\<open>archive_entry_free\<close>) leave no event.
\<close>

datatype event =
    Log string
  | ReadNew | ReadSupportFormatAll | ReadSupportFilterAll
  | ReadAddPassphrase string
  | ReadOpenFilename string nat
  | ReadDataSkip
  | ReadClose | ReadFree
  | WriteDiskNew | WriteDiskSetOptions "extract_flag list" | WriteDiskSetStandardLookup
  | Mkdir string nat
  | Chdir string
  | WriteHeader archive_entry
  | WriteDataBlock string int
  | WriteNew
  | WriteSetFormat wformat
  | WriteAddFilter wfilter
  | WriteSetPassphrase string
  | WriteSetOptions string
  | WriteOpenFilename string
  | WriteData string
  | WriteClose | WriteFree

text \<open>
  The state a run threads through: how often the cancellation flag has been read, how
  often each write call has been made, the working directory, and the events so far.
\<close>

record world =
  polls :: nat
  hdr_calls :: nat
  block_calls :: nat
  data_calls :: nat
  cwd :: string
  trace :: "event list"

text \<open>
  The answers of the collaborators. The cancellation flag is a pointer that may be null;
  behind it is a cell another thread may write, so each read has its own value, given by
  the number of the read. The write side answers by the number of the call. An archive
  on disk is a finite list of header answers; a file is its bytes.
\<close>

record env =
  cancel_flag :: "(nat \<Rightarrow> int) option"
  write_header_status :: "nat \<Rightarrow> int"
  write_data_block_status :: "nat \<Rightarrow> int"
  write_data_status :: "nat \<Rightarrow> int"
  read_add_passphrase_status :: int
  read_open_status :: "string \<Rightarrow> int"
  archive_contents :: "string \<Rightarrow> header list"
  stat_fs :: "string \<Rightarrow> stat option"
  opendir_fs :: "string \<Rightarrow> string list option"
  fopen_fs :: "string \<Rightarrow> string option"
  getcwd_ok :: bool
  chdir_status :: "string \<Rightarrow> int"
  write_set_passphrase_status :: int
  write_set_options_status :: int
  write_open_status :: "string \<Rightarrow> int"

section \<open>Primitives\<close>

definition emit :: "event list \<Rightarrow> world \<Rightarrow> world" where
  "emit evs w = w\<lparr>trace := trace w @ evs\<rparr>"

text \<open>
  The value of \<^verbatim>\<open>cancel_flag && *cancel_flag\<close> at the \<open>n\<close>-th test of the flag. The
  second read of the cell, for the log line of a cancellation, only goes into the text
  of that line and is not counted.
\<close>

definition flag_at :: "env \<Rightarrow> nat \<Rightarrow> bool" where
  "flag_at E n = (case cancel_flag E of None \<Rightarrow> False | Some f \<Rightarrow> f n \<noteq> 0)"

definition cancel_set :: "env \<Rightarrow> world \<Rightarrow> bool" where
  "cancel_set E w = flag_at E (polls w)"

definition poll :: "world \<Rightarrow> world" where
  "poll w = w\<lparr>polls := Suc (polls w)\<rparr>"

definition archive_write_header :: "env \<Rightarrow> archive_entry \<Rightarrow> world \<Rightarrow> int \<times> world" where
  "archive_write_header E entry w =
     (write_header_status E (hdr_calls w),
      emit [WriteHeader entry] (w\<lparr>hdr_calls := Suc (hdr_calls w)\<rparr>))"

definition archive_write_data_block :: "env \<Rightarrow> string \<Rightarrow> int \<Rightarrow> world \<Rightarrow> int \<times> world" where
  "archive_write_data_block E b off w =
     (write_data_block_status E (block_calls w),
      emit [WriteDataBlock b off] (w\<lparr>block_calls := Suc (block_calls w)\<rparr>))"

definition archive_write_data :: "env \<Rightarrow> string \<Rightarrow> world \<Rightarrow> int \<times> world" where
  "archive_write_data E b w =
     (write_data_status E (data_calls w),
      emit [WriteData b] (w\<lparr>data_calls := Suc (data_calls w)\<rparr>))"

section \<open>The data copier\<close>

text \<open>
  \<^verbatim>\<open>copy_data\<close> (lines 19 to 41). The list is what the reader still has for the entry;
  a reader with nothing left answers \<^verbatim>\<open>ARCHIVE_EOF\<close>. The result is the status, what the
  reader has left, and the world.
\<close>

fun copy_data :: "env \<Rightarrow> data_block list \<Rightarrow> world \<Rightarrow> int \<times> data_block list \<times> world" where
  "copy_data E [] w =
     (if cancel_set E w
      then (ERROR_OPERATION_CANCELLED, [], emit [Log ''copy_data detected cancel''] (poll w))
      else (ARCHIVE_OK, [], poll w))"
| "copy_data E (b # bs) w =
     (if cancel_set E w
      then (ERROR_OPERATION_CANCELLED, b # bs, emit [Log ''copy_data detected cancel''] (poll w))
      else if r_status b = ARCHIVE_EOF then (ARCHIVE_OK, bs, poll w)
      else if r_status b < ARCHIVE_OK then (r_status b, bs, poll w)
      else (case archive_write_data_block E (buff b) (offset b) (poll w) of
              (r, w') \<Rightarrow>
                if r < ARCHIVE_OK then (r, bs, emit [Log ''write error''] w')
                else copy_data E bs w'))"

section \<open>The directory walker\<close>

text \<open>\<^verbatim>\<open>snprintf\<close> into a buffer of 512 bytes keeps at most 511 characters.\<close>

definition snprintf_512 :: "string \<Rightarrow> string" where
  "snprintf_512 s = take 511 s"

text \<open>
  The chunks the loop \<^verbatim>\<open>while ((bytes_read = fread(buffer, 1, 8192, file)) > 0)\<close> sees
  for a file with the given bytes.
\<close>

function fread_chunks :: "string \<Rightarrow> string list" where
  "fread_chunks s = (if s = [] then [] else take 8192 s # fread_chunks (drop 8192 s))"
  by pat_completeness auto
termination
  by (relation "measure length") auto

declare fread_chunks.simps [simp del]

text \<open>
  The walker's content loop (lines 130 to 132): each chunk goes to
  \<^verbatim>\<open>archive_write_data\<close> and the status that call returns is dropped.
\<close>

fun write_chunks :: "env \<Rightarrow> string list \<Rightarrow> world \<Rightarrow> world" where
  "write_chunks E [] w = w"
| "write_chunks E (c # cs) w =
     (case archive_write_data E c w of (r, w') \<Rightarrow> write_chunks E cs w')"

definition dir_entry :: "string \<Rightarrow> stat \<Rightarrow> archive_entry" where
  "dir_entry archive_path st =
     \<lparr>pathname = archive_path, e_size = 0, e_mode = st_mode st, e_mtime = st_mtime st,
      e_filetype = AE_IFDIR, is_encrypted = False\<rparr>"

definition file_entry :: "string \<Rightarrow> stat \<Rightarrow> archive_entry" where
  "file_entry archive_path st =
     \<lparr>pathname = archive_path, e_size = st_size st, e_mode = st_mode st, e_mtime = st_mtime st,
      e_filetype = AE_IFREG, is_encrypted = False\<rparr>"

text \<open>The path inside the archive (lines 72 to 76); \<open>None\<close> is the null parent.\<close>

definition archive_path_of :: "string option \<Rightarrow> string \<Rightarrow> string" where
  "archive_path_of parent_path d_name =
     (case parent_path of
        None \<Rightarrow> snprintf_512 d_name
      | Some p \<Rightarrow> if length p > 0 then snprintf_512 (p @ ''/'' @ d_name) else snprintf_512 d_name)"

text \<open>
  \<^verbatim>\<open>add_directory_to_archive\<close> (lines 44 to 144) and its \<^verbatim>\<open>readdir\<close> loop over the names
  still to come. The file system answers by path, so nothing bounds how deep the C
  recursion goes; the first argument bounds the depth here, and \<open>None\<close> says the bound
  was reached.
\<close>

fun add_directory_to_archive ::
    "nat \<Rightarrow> env \<Rightarrow> string \<Rightarrow> string option \<Rightarrow> world \<Rightarrow> (int \<times> world) option"
  and readdir_loop ::
    "nat \<Rightarrow> env \<Rightarrow> string \<Rightarrow> string option \<Rightarrow> string list \<Rightarrow> world \<Rightarrow> (int \<times> world) option"
where
  "add_directory_to_archive 0 E dir_path parent_path w = None"
| "add_directory_to_archive (Suc depth) E dir_path parent_path w =
     (case opendir_fs E dir_path of
        None \<Rightarrow> Some (ARCHIVE_FATAL, emit [Log ''cannot open directory''] w)
      | Some names \<Rightarrow> readdir_loop depth E dir_path parent_path names w)"
| "readdir_loop depth E dir_path parent_path [] w = Some (ARCHIVE_OK, w)"
| "readdir_loop depth E dir_path parent_path (d_name # rest) w =
     (if cancel_set E w
      then Some (ERROR_OPERATION_CANCELLED,
                 emit [Log ''add_directory_to_archive detected cancel''] (poll w))
      else if d_name = ''.'' \<or> d_name = ''..''
      then readdir_loop depth E dir_path parent_path rest (poll w)
      else
        (case stat_fs E (snprintf_512 (dir_path @ ''/'' @ d_name)) of
           None \<Rightarrow>
             readdir_loop depth E dir_path parent_path rest
               (emit [Log ''cannot stat file''] (poll w))
         | Some st \<Rightarrow>
             if S_ISDIR (st_mode st) then
               (case archive_write_header E
                       (dir_entry (archive_path_of parent_path d_name) st) (poll w) of
                  (r, w1) \<Rightarrow>
                    if r < ARCHIVE_OK then Some (r, emit [Log ''write header error''] w1)
                    else
                      (case add_directory_to_archive depth E
                              (snprintf_512 (dir_path @ ''/'' @ d_name))
                              (Some (archive_path_of parent_path d_name)) w1 of
                         None \<Rightarrow> None
                       | Some (r', w2) \<Rightarrow>
                           if r' < ARCHIVE_OK then Some (r', w2)
                           else readdir_loop depth E dir_path parent_path rest w2))
             else if S_ISREG (st_mode st) then
               (case archive_write_header E
                       (file_entry (archive_path_of parent_path d_name) st) (poll w) of
                  (r, w1) \<Rightarrow>
                    if r < ARCHIVE_OK then Some (r, emit [Log ''write header error''] w1)
                    else
                      (case fopen_fs E (snprintf_512 (dir_path @ ''/'' @ d_name)) of
                         Some content \<Rightarrow>
                           readdir_loop depth E dir_path parent_path rest
                             (write_chunks E (fread_chunks content) w1)
                       | None \<Rightarrow> Some (ARCHIVE_FATAL, emit [Log ''cannot open file''] w1)))
             else readdir_loop depth E dir_path parent_path rest (poll w)))"

section \<open>Extraction\<close>

text \<open>
  \<^verbatim>\<open>chdir\<close>: the call is recorded, and the working directory changes when it returns 0.
\<close>

definition chdir :: "env \<Rightarrow> string \<Rightarrow> world \<Rightarrow> int \<times> world" where
  "chdir E path w =
     (chdir_status E path,
      emit [Chdir path] (if chdir_status E path = 0 then w\<lparr>cwd := path\<rparr> else w))"

text \<open>
  The entry loop of \<^verbatim>\<open>extract_archive\<close> (lines 241 to 294), over the header answers the
  reader still has; a reader with none left answers \<^verbatim>\<open>ARCHIVE_EOF\<close>. The result is the
  value of \<^verbatim>\<open>result\<close> on the way to \<^verbatim>\<open>cleanup\<close>.
\<close>

fun extract_loop :: "env \<Rightarrow> string option \<Rightarrow> header list \<Rightarrow> world \<Rightarrow> int \<times> world" where
  "extract_loop E password [] w =
     (if cancel_set E w
      then (ERROR_OPERATION_CANCELLED,
            emit [Log ''extract_archive loop detected cancel''] (poll w))
      else (SUCCESS, poll w))"
| "extract_loop E password (h # rest) w =
     (if cancel_set E w
      then (ERROR_OPERATION_CANCELLED,
            emit [Log ''extract_archive loop detected cancel''] (poll w))
      else if h_status h = ARCHIVE_EOF then (SUCCESS, poll w)
      else if h_status h = ARCHIVE_RETRY
      then extract_loop E password rest (emit [Log ''retry''] (poll w))
      else if is_encrypted (h_entry h) \<and> password = None
      then (ERROR_PASSWORD_REQUIRED, emit [Log ''entry is encrypted, password needed''] (poll w))
      else if is_encrypted (h_entry h) \<and> h_status h < ARCHIVE_OK
      then (ERROR_WRONG_PASSWORD,
            emit [Log ''entry is encrypted, password may be wrong''] (poll w))
      else if h_status h \<noteq> ARCHIVE_WARN \<and> h_status h < ARCHIVE_OK
      then (ERROR_READ_ENTRY_FAILED, emit [Log ''error''] (poll w))
      else
        (case archive_write_header E (h_entry h)
                (if h_status h = ARCHIVE_WARN then emit [Log ''warning''] (poll w) else poll w) of
           (r, w1) \<Rightarrow>
             if r < ARCHIVE_OK
             then extract_loop E password rest (emit [Log ''write header error''] w1)
             else if e_size (h_entry h) > 0 then
               (case copy_data E (h_blocks h) w1 of
                  (r', left, w2) \<Rightarrow>
                    if r' = ERROR_OPERATION_CANCELLED then (ERROR_OPERATION_CANCELLED, w2)
                    else if r' < ARCHIVE_OK
                    then (ERROR_EXTRACT_FAILED, emit [Log ''copy error''] w2)
                    else extract_loop E password rest w2)
             else extract_loop E password rest w1))"

text \<open>
  The code after the label \<^verbatim>\<open>cleanup\<close> (lines 296 to 311); \<open>a\<close> and \<open>ext\<close> say whether
  the two sessions are non-null.
\<close>

definition cleanup_extract :: "env \<Rightarrow> bool \<Rightarrow> string \<Rightarrow> bool \<Rightarrow> bool \<Rightarrow> world \<Rightarrow> world" where
  "cleanup_extract E changed_dir current_dir a ext w =
     (let w1 = (if changed_dir then snd (chdir E current_dir w) else w);
          w2 = (if a then emit [ReadClose, ReadFree] w1 else w1)
      in if ext then emit [WriteClose, WriteFree] w2 else w2)"

text \<open>
  \<^verbatim>\<open>extract_archive\<close> from the creation of the disk writer on (lines 209 to 311), and
  the whole function (lines 172 to 312). The two \<^verbatim>\<open>_new\<close> calls are taken to return a
  session.
\<close>

definition extract_opened :: "env \<Rightarrow> string \<Rightarrow> string \<Rightarrow> string option \<Rightarrow> world \<Rightarrow> int \<times> world" where
  "extract_opened E archive_path destination_path password w =
     (let w1 = emit [WriteDiskNew,
                     WriteDiskSetOptions [ARCHIVE_EXTRACT_TIME, ARCHIVE_EXTRACT_PERM,
                                          ARCHIVE_EXTRACT_ACL, ARCHIVE_EXTRACT_FFLAGS],
                     WriteDiskSetStandardLookup,
                     ReadOpenFilename archive_path 10240] w
      in if read_open_status E archive_path \<noteq> ARCHIVE_OK
         then (ERROR_OPEN_FILE_FAILED,
               cleanup_extract E False [] True True (emit [Log ''cannot open archive''] w1))
         else
           let w2 = (if stat_fs E destination_path = None
                     then emit [Mkdir destination_path 493] w1 else w1)
           in if \<not> getcwd_ok E
              then (ERROR_EXTRACT_FAILED,
                    cleanup_extract E False [] True True (emit [Log ''getcwd failed''] w2))
              else
                (case chdir E destination_path w2 of
                   (c, w3) \<Rightarrow>
                     if c \<noteq> 0
                     then (ERROR_EXTRACT_FAILED,
                           cleanup_extract E False (cwd w2) True True
                             (emit [Log ''cannot change to destination''] w3))
                     else
                       (case extract_loop E password (archive_contents E archive_path) w3 of
                          (result, w4) \<Rightarrow>
                            (result, cleanup_extract E True (cwd w2) True True w4))))"

definition extract_archive :: "env \<Rightarrow> string \<Rightarrow> string \<Rightarrow> string option \<Rightarrow> world \<Rightarrow> int \<times> world" where
  "extract_archive E archive_path destination_path password w =
     (if cancel_set E w
      then (ERROR_OPERATION_CANCELLED,
            emit [Log ''extract_archive early cancel before start''] (poll w))
      else
        let w1 = emit [ReadNew, ReadSupportFormatAll, ReadSupportFilterAll] (poll w)
        in case password of
             None \<Rightarrow> extract_opened E archive_path destination_path password w1
           | Some p \<Rightarrow>
               if read_add_passphrase_status E \<noteq> ARCHIVE_OK
               then (ERROR_WRONG_PASSWORD,
                     cleanup_extract E False [] True False
                       (emit [ReadAddPassphrase p, Log ''setting the password failed''] w1))
               else extract_opened E archive_path destination_path password
                      (emit [ReadAddPassphrase p] w1))"

section \<open>Compression\<close>

text \<open>The \<^verbatim>\<open>switch\<close> on the format (lines 344 to 382); \<open>None\<close> is the default branch.\<close>

definition format_setup :: "int \<Rightarrow> event list option" where
  "format_setup format =
     (if format = 1 then Some [WriteSetFormat Zip]
      else if format = 2 then Some [WriteSetFormat PaxRestricted]
      else if format = 3 then Some [WriteSetFormat PaxRestricted, WriteAddFilter Gzip]
      else if format = 4 then Some [WriteSetFormat PaxRestricted, WriteAddFilter Bzip2]
      else if format = 5 then Some [WriteSetFormat PaxRestricted, WriteAddFilter Xz]
      else if format = 6 then Some [WriteSetFormat SevenZip]
      else if format = 7 then Some [WriteSetFormat Raw, WriteAddFilter Bzip2]
      else if format = 8 then Some [WriteSetFormat Raw, WriteAddFilter Xz]
      else if format = 9 then Some [WriteSetFormat Raw, WriteAddFilter Gzip]
      else None)"

text \<open>The warning of line 405.\<close>

definition password_warning :: event where
  "password_warning = Log ''warning: format has no encryption, password ignored''"

text \<open>
  The password step (lines 385 to 407): \<open>False\<close> is the jump to \<^verbatim>\<open>cleanup\<close> with
  \<^verbatim>\<open>ERROR_COMPRESS_FAILED\<close>.
\<close>

definition password_setup :: "env \<Rightarrow> int \<Rightarrow> string option \<Rightarrow> world \<Rightarrow> bool \<times> world" where
  "password_setup E format password w =
     (case password of
        None \<Rightarrow> (True, w)
      | Some p \<Rightarrow>
          if format = 1 \<or> format = 6 then
            (if write_set_passphrase_status E \<noteq> ARCHIVE_OK
             then (False, emit [WriteSetPassphrase p, Log ''setting the password failed''] w)
             else if format = 1 then
               (if write_set_options_status E \<noteq> ARCHIVE_OK
                then (False, emit [WriteSetPassphrase p,
                                   WriteSetOptions ''zip:encryption=traditional'',
                                   Log ''enabling ZIP encryption failed''] w)
                else (True, emit [WriteSetPassphrase p,
                                  WriteSetOptions ''zip:encryption=traditional''] w))
             else (True, emit [WriteSetPassphrase p] w))
          else (True, emit [password_warning] w))"

text \<open>The name after the last slash (lines 431 to 436).\<close>

definition base_filename :: "string \<Rightarrow> string" where
  "base_filename source_path =
     (if CHR ''/'' \<in> set source_path
      then rev (takeWhile (\<lambda>c. c \<noteq> CHR ''/'') (rev source_path))
      else source_path)"

text \<open>
  The content loop of the single-file branch (lines 458 to 466): the flag is read before
  each chunk is written, and the status of the write is dropped.
\<close>

fun write_file_chunks :: "env \<Rightarrow> string list \<Rightarrow> world \<Rightarrow> int \<times> world" where
  "write_file_chunks E [] w = (SUCCESS, w)"
| "write_file_chunks E (c # cs) w =
     (if cancel_set E w
      then (ERROR_OPERATION_CANCELLED,
            emit [Log ''compress_files write loop detected cancel''] (poll w))
      else (case archive_write_data E c (poll w) of (r, w') \<Rightarrow> write_file_chunks E cs w'))"

text \<open>The dispatch on the kind of source (lines 418 to 477).\<close>

definition compress_source ::
    "nat \<Rightarrow> env \<Rightarrow> string \<Rightarrow> stat \<Rightarrow> world \<Rightarrow> (int \<times> world) option" where
  "compress_source depth E source_path st w =
     (if S_ISDIR (st_mode st) then
        (case add_directory_to_archive depth E source_path None w of
           None \<Rightarrow> None
         | Some (r, w1) \<Rightarrow>
             if r < ARCHIVE_OK
             then Some (if r = ERROR_OPERATION_CANCELLED then ERROR_OPERATION_CANCELLED
                        else ERROR_COMPRESS_FAILED,
                        emit [Log ''adding the directory failed''] w1)
             else Some (SUCCESS, w1))
      else if S_ISREG (st_mode st) then
        (case archive_write_header E (file_entry (base_filename source_path) st) w of
           (r, w1) \<Rightarrow>
             if r < ARCHIVE_OK
             then Some (ERROR_COMPRESS_FAILED, emit [Log ''write header error''] w1)
             else
               (case fopen_fs E source_path of
                  Some content \<Rightarrow> Some (write_file_chunks E (fread_chunks content) w1)
                | None \<Rightarrow> Some (ERROR_OPEN_FILE_FAILED, emit [Log ''cannot open file''] w1)))
      else Some (ERROR_UNSUPPORTED_FORMAT, emit [Log ''unsupported file type''] w))"

text \<open>
  \<^verbatim>\<open>compress_files\<close> (lines 322 to 486). \<^verbatim>\<open>archive_write_new\<close> is taken to return a
  session, so every path after it closes and frees the session at \<^verbatim>\<open>cleanup\<close>; the path
  of a missing source reaches \<^verbatim>\<open>cleanup\<close> with a null session. The first argument bounds
  the depth of the walk.
\<close>

definition cleanup_compress :: "bool \<Rightarrow> world \<Rightarrow> world" where
  "cleanup_compress a w = (if a then emit [WriteClose, WriteFree] w else w)"

definition compress_files ::
    "nat \<Rightarrow> env \<Rightarrow> string \<Rightarrow> string \<Rightarrow> int \<Rightarrow> string option \<Rightarrow> world \<Rightarrow> (int \<times> world) option" where
  "compress_files depth E source_path archive_path format password w =
     (if cancel_set E w
      then Some (ERROR_OPERATION_CANCELLED,
                 emit [Log ''compress_files early cancel before start''] (poll w))
      else
        (case stat_fs E source_path of
           None \<Rightarrow>
             Some (ERROR_OPEN_FILE_FAILED,
                   cleanup_compress False (emit [Log ''source path does not exist''] (poll w)))
         | Some st \<Rightarrow>
             (case format_setup format of
                None \<Rightarrow>
                  Some (ERROR_UNSUPPORTED_FORMAT,
                        cleanup_compress True
                          (emit [WriteNew, Log ''unsupported format''] (poll w)))
              | Some evs \<Rightarrow>
                  (case password_setup E format password (emit (WriteNew # evs) (poll w)) of
                     (False, w1) \<Rightarrow> Some (ERROR_COMPRESS_FAILED, cleanup_compress True w1)
                   | (True, w1) \<Rightarrow>
                       if write_open_status E archive_path \<noteq> ARCHIVE_OK
                       then Some (ERROR_CREATE_ARCHIVE_FAILED,
                                  cleanup_compress True
                                    (emit [WriteOpenFilename archive_path,
                                           Log ''cannot create archive''] w1))
                       else
                         (case compress_source depth E source_path st
                                 (emit [WriteOpenFilename archive_path] w1) of
                            None \<Rightarrow> None
                          | Some (result, w2) \<Rightarrow> Some (result, cleanup_compress True w2))))))"

section \<open>The encryption probe\<close>

text \<open>
  The loop of \<^verbatim>\<open>check_archive_encryption\<close> (lines 513 to 519): the value of
  \<^verbatim>\<open>has_encrypted_entries\<close> when it ends.
\<close>

fun scan_headers :: "header list \<Rightarrow> world \<Rightarrow> bool \<times> world" where
  "scan_headers [] w = (False, w)"
| "scan_headers (h # rest) w =
     (if h_status h = ARCHIVE_OK
      then (if is_encrypted (h_entry h) then (True, w)
            else scan_headers rest (emit [ReadDataSkip] w))
      else (False, w))"

definition check_archive_encryption :: "env \<Rightarrow> string \<Rightarrow> world \<Rightarrow> int \<times> world" where
  "check_archive_encryption E archive_path w =
     (let w1 = emit [ReadNew, ReadSupportFormatAll, ReadSupportFilterAll,
                     ReadOpenFilename archive_path 10240] w
      in if read_open_status E archive_path \<noteq> ARCHIVE_OK
         then (ERROR_OPEN_FILE_FAILED, emit [Log ''cannot open archive'', ReadFree] w1)
         else
           (case scan_headers (archive_contents E archive_path) w1 of
              (has_encrypted_entries, w2) \<Rightarrow>
                (if has_encrypted_entries then ENCRYPTION_PRESENT else ENCRYPTION_NONE,
                 emit [ReadClose, ReadFree] w2)))"

section \<open>Notions used in the statements\<close>

text \<open>
  The world after the copier has passed \<open>k\<close> blocks on: \<open>k\<close> reads of the flag, \<open>k\<close>
  calls of \<^verbatim>\<open>archive_write_data_block\<close>, and the first \<open>k\<close> blocks written in order.
\<close>

definition copied :: "nat \<Rightarrow> data_block list \<Rightarrow> world \<Rightarrow> world" where
  "copied k bs w =
     w\<lparr>polls := polls w + k, block_calls := block_calls w + k,
       trace := trace w @ map (\<lambda>b. WriteDataBlock (buff b) (offset b)) (take k bs)\<rparr>"

text \<open>
  The world in which the entry loop of \<^verbatim>\<open>extract_archive\<close> starts, when the run gets that
  far: the flag read once, the sessions set up, the archive opened, the destination made
  if it was missing, and entered.
\<close>

definition at_loop :: "env \<Rightarrow> string \<Rightarrow> string \<Rightarrow> string option \<Rightarrow> world \<Rightarrow> world" where
  "at_loop E archive_path destination_path password w =
     emit ([ReadNew, ReadSupportFormatAll, ReadSupportFilterAll]
           @ (case password of None \<Rightarrow> [] | Some p \<Rightarrow> [ReadAddPassphrase p])
           @ [WriteDiskNew,
              WriteDiskSetOptions [ARCHIVE_EXTRACT_TIME, ARCHIVE_EXTRACT_PERM,
                                   ARCHIVE_EXTRACT_ACL, ARCHIVE_EXTRACT_FFLAGS],
              WriteDiskSetStandardLookup,
              ReadOpenFilename archive_path 10240]
           @ (if stat_fs E destination_path = None then [Mkdir destination_path 493] else [])
           @ [Chdir destination_path])
       ((poll w)\<lparr>cwd := destination_path\<rparr>)"

text \<open>
  The world after the loop of \<^verbatim>\<open>extract_archive\<close> has read the flag and written the
  header of an entry, the warning of line 272 logged first when the header read returned
  \<^verbatim>\<open>ARCHIVE_WARN\<close>.
\<close>

definition header_written :: "header \<Rightarrow> world \<Rightarrow> world" where
  "header_written h w =
     w\<lparr>polls := Suc (polls w), hdr_calls := Suc (hdr_calls w),
       trace := trace w @ (if h_status h = ARCHIVE_WARN then [Log ''warning''] else [])
                  @ [WriteHeader (h_entry h)]\<rparr>"

text \<open>
  The world in which the copier stops when block \<open>k\<close> fails after \<open>k\<close> blocks were
  passed on: the flag read once more; after a failing read nothing else; after a failing
  write the one call of \<^verbatim>\<open>archive_write_data_block\<close> that failed, and the line of the log.
\<close>

definition copy_failed :: "nat \<Rightarrow> data_block list \<Rightarrow> world \<Rightarrow> world" where
  "copy_failed k bs v =
     (if r_status (bs ! k) < ARCHIVE_OK
      then (copied k bs v)\<lparr>polls := Suc (polls v + k)\<rparr>
      else (copied k bs v)
             \<lparr>polls := Suc (polls v + k), block_calls := Suc (block_calls v + k),
              trace := trace (copied k bs v)
                         @ [WriteDataBlock (buff (bs ! k)) (offset (bs ! k)),
                            Log ''write error'']\<rparr>)"

text \<open>
  The calls of \<^verbatim>\<open>extract_archive\<close> before the entry loop, in their order: the creation of
  the reader with the password; the creation of the disk writer and the opening of the
  archive; the creation of a missing destination.
\<close>

definition reader_setup :: "string option \<Rightarrow> event list" where
  "reader_setup password =
     [ReadNew, ReadSupportFormatAll, ReadSupportFilterAll]
     @ (case password of None \<Rightarrow> [] | Some p \<Rightarrow> [ReadAddPassphrase p])"

definition disk_setup :: "string \<Rightarrow> event list" where
  "disk_setup archive_path =
     [WriteDiskNew,
      WriteDiskSetOptions [ARCHIVE_EXTRACT_TIME, ARCHIVE_EXTRACT_PERM,
                           ARCHIVE_EXTRACT_ACL, ARCHIVE_EXTRACT_FFLAGS],
      WriteDiskSetStandardLookup,
      ReadOpenFilename archive_path 10240]"

definition destination_setup :: "env \<Rightarrow> string \<Rightarrow> event list" where
  "destination_setup E destination_path =
     (if stat_fs E destination_path = None then [Mkdir destination_path 493] else [])"

text \<open>A later world of the same run: more events, the same working directory.\<close>

definition extends :: "world \<Rightarrow> world \<Rightarrow> bool" where
  "extends w v = ((\<exists>evs. trace v = trace w @ evs) \<and> cwd v = cwd w)"

text \<open>The same world with an older history in front of its events.\<close>

definition shift :: "event list \<Rightarrow> world \<Rightarrow> world" where
  "shift t w = w\<lparr>trace := t @ trace w\<rparr>"

definition shifted :: "event list \<Rightarrow> (int \<times> world) option \<Rightarrow> (int \<times> world) option" where
  "shifted t res = (case res of None \<Rightarrow> None | Some (r, w) \<Rightarrow> Some (r, shift t w))"

text \<open>A world, and the outcome of a run, with the password warning taken out of the log.\<close>

definition without_warning :: "world \<Rightarrow> world" where
  "without_warning w = w\<lparr>trace := filter (\<lambda>e. e \<noteq> password_warning) (trace w)\<rparr>"

definition unwarned :: "(int \<times> world) option \<Rightarrow> (int \<times> world) option" where
  "unwarned res = (case res of None \<Rightarrow> None | Some (r, w) \<Rightarrow> Some (r, without_warning w))"

text \<open>The outcome of \<^verbatim>\<open>compress_files\<close> from the outcome of the dispatch on the source.\<close>

definition finish :: "(int \<times> world) option \<Rightarrow> (int \<times> world) option" where
  "finish res = (case res of None \<Rightarrow> None | Some (r, w) \<Rightarrow> Some (r, cleanup_compress True w))"

section \<open>Example inputs\<close>

text \<open>A fresh world, and collaborators that answer every call with success and know no file.\<close>

definition w0 :: world where
  "w0 = \<lparr>polls = 0, hdr_calls = 0, block_calls = 0, data_calls = 0, cwd = ''/home'',
          trace = []\<rparr>"

definition env0 :: env where
  "env0 = \<lparr>cancel_flag = None, write_header_status = (\<lambda>n. 0),
            write_data_block_status = (\<lambda>n. 0), write_data_status = (\<lambda>n. 0),
            read_add_passphrase_status = 0, read_open_status = (\<lambda>p. 0),
            archive_contents = (\<lambda>p. []), stat_fs = (\<lambda>p. None), opendir_fs = (\<lambda>p. None),
            fopen_fs = (\<lambda>p. None), getcwd_ok = True, chdir_status = (\<lambda>p. 0),
            write_set_passphrase_status = 0, write_set_options_status = 0,
            write_open_status = (\<lambda>p. 0)\<rparr>"

definition blk :: "int \<Rightarrow> string \<Rightarrow> int \<Rightarrow> data_block" where
  "blk r b off = \<lparr>r_status = r, buff = b, offset = off\<rparr>"

definition ent :: "string \<Rightarrow> int \<Rightarrow> bool \<Rightarrow> archive_entry" where
  "ent p n enc = \<lparr>pathname = p, e_size = n, e_mode = 420, e_mtime = 0, e_filetype = AE_IFREG,
                  is_encrypted = enc\<rparr>"

definition hdr :: "int \<Rightarrow> archive_entry \<Rightarrow> data_block list \<Rightarrow> header" where
  "hdr r e bs = \<lparr>h_status = r, h_entry = e, h_blocks = bs\<rparr>"

text \<open>A flag that is set from the first read on, and one that is set at the second read.\<close>

definition cancelled_env :: env where
  "cancelled_env = env0\<lparr>cancel_flag := Some (\<lambda>n. 1)\<rparr>"

definition cancel_later_env :: env where
  "cancel_later_env = env0\<lparr>cancel_flag := Some (\<lambda>n. if n = 1 then 1 else 0)\<rparr>"

text \<open>
  Archives: a plain entry followed by an encrypted one whose header read fails; a plain
  entry followed by an encrypted one; an archive that cannot be opened.
\<close>

definition failing_header_env :: env where
  "failing_header_env =
     env0\<lparr>archive_contents :=
            (\<lambda>p. [hdr 0 (ent ''a'' 1 False) [], hdr (- 30) (ent ''b'' 1 True) []])\<rparr>"

definition encrypted_env :: env where
  "encrypted_env =
     env0\<lparr>archive_contents :=
            (\<lambda>p. [hdr 0 (ent ''a'' 1 False) [], hdr 0 (ent ''b'' 1 True) []])\<rparr>"

definition unopenable_env :: env where
  "unopenable_env = env0\<lparr>read_open_status := (\<lambda>p. - 30)\<rparr>"

text \<open>
  Collaborators that refuse the password, that cannot name the working directory, that
  refuse every change of directory, and that let the run into \<^verbatim>\<open>out\<close> but not back.
\<close>

definition bad_passphrase_env :: env where
  "bad_passphrase_env = env0\<lparr>read_add_passphrase_status := - 30\<rparr>"

definition no_getcwd_env :: env where
  "no_getcwd_env = env0\<lparr>getcwd_ok := False\<rparr>"

definition no_chdir_env :: env where
  "no_chdir_env = env0\<lparr>chdir_status := (\<lambda>p. - 1)\<rparr>"

definition no_return_env :: env where
  "no_return_env = env0\<lparr>chdir_status := (\<lambda>p. if p = ''out'' then 0 else - 1)\<rparr>"

text \<open>An archive whose only header read asks for a retry and leaves an encrypted entry.\<close>

definition retry_env :: env where
  "retry_env = env0\<lparr>archive_contents := (\<lambda>p. [hdr (- 10) (ent ''s'' 1 True) []])\<rparr>"

text \<open>
  An archive with one entry of two bytes: read and written without error; with a failing
  read of the data; with a failing write of the data.
\<close>

definition one_entry_env :: env where
  "one_entry_env = env0\<lparr>archive_contents := (\<lambda>p. [hdr 0 (ent ''a'' 2 False) [blk 0 ''hi'' 0]])\<rparr>"

definition read_fail_env :: env where
  "read_fail_env = env0\<lparr>archive_contents := (\<lambda>p. [hdr 0 (ent ''a'' 2 False) [blk (- 30) [] 0]])\<rparr>"

definition write_fail_env :: env where
  "write_fail_env = one_entry_env\<lparr>write_data_block_status := (\<lambda>n. - 30)\<rparr>"

text \<open>
  File systems: a directory \<^verbatim>\<open>d\<close> whose listing names a child that cannot be examined
  and a regular file; a regular file \<^verbatim>\<open>src\<close>; a directory \<^verbatim>\<open>d\<close> with two regular files
  of which the second cannot be opened, behind a writer whose data writes all fail.
\<close>

definition reg_stat :: stat where
  "reg_stat = \<lparr>st_mode = 33188, st_size = 2, st_mtime = 7\<rparr>"

definition dir_stat :: stat where
  "dir_stat = \<lparr>st_mode = 16877, st_size = 0, st_mtime = 7\<rparr>"

definition gone_child_env :: env where
  "gone_child_env =
     env0\<lparr>opendir_fs := (\<lambda>p. if p = ''d'' then Some [''.'', ''..'', ''gone'', ''b''] else None),
          stat_fs := (\<lambda>p. if p = ''d'' then Some dir_stat
                          else if p = ''d/b'' then Some reg_stat else None),
          fopen_fs := (\<lambda>p. if p = ''d/b'' then Some ''hi'' else None)\<rparr>"

definition src_env :: env where
  "src_env =
     env0\<lparr>stat_fs := (\<lambda>p. if p = ''src'' then Some reg_stat else None),
          fopen_fs := (\<lambda>p. if p = ''src'' then Some ''hi'' else None)\<rparr>"

definition src_cancelled_env :: env where
  "src_cancelled_env = src_env\<lparr>cancel_flag := Some (\<lambda>n. 1)\<rparr>"

definition src_bad_writes_env :: env where
  "src_bad_writes_env = src_env\<lparr>write_data_status := (\<lambda>n. - 30)\<rparr>"

definition locked_file_env :: env where
  "locked_file_env =
     env0\<lparr>opendir_fs := (\<lambda>p. if p = ''d'' then Some [''a'', ''b''] else None),
          stat_fs := (\<lambda>p. if p = ''d'' then Some dir_stat
                          else if p = ''d/a'' \<or> p = ''d/b'' then Some reg_stat else None),
          fopen_fs := (\<lambda>p. if p = ''d/a'' then Some ''hi'' else None),
          write_data_status := (\<lambda>n. - 30)\<rparr>"

section \<open>Basic facts\<close>

lemmas archive_codes =
  ARCHIVE_EOF_def ARCHIVE_OK_def ARCHIVE_RETRY_def ARCHIVE_WARN_def ARCHIVE_FATAL_def

lemmas wrapper_codes =
  SUCCESS_def ERROR_CREATE_ARCHIVE_FAILED_def ERROR_OPEN_FILE_FAILED_def
  ERROR_READ_ENTRY_FAILED_def ERROR_EXTRACT_FAILED_def ERROR_COMPRESS_FAILED_def
  ERROR_PASSWORD_REQUIRED_def ERROR_WRONG_PASSWORD_def ERROR_UNSUPPORTED_FORMAT_def
  ERROR_OPERATION_CANCELLED_def ENCRYPTION_NONE_def ENCRYPTION_PRESENT_def

lemma fread_chunks_Nil: "fread_chunks [] = []"
  by (simp add: fread_chunks.simps)

lemma fread_chunks_short: "s \<noteq> [] \<Longrightarrow> length s \<le> 8192 \<Longrightarrow> fread_chunks s = [s]"
  by (subst fread_chunks.simps) (simp add: fread_chunks_Nil)

lemma no_flag_no_cancel: "cancel_flag E = None \<Longrightarrow> \<not> flag_at E n"
  by (simp add: flag_at_def)

section \<open>Cancellation before the start\<close>

text \<open>
  C1. When the cancellation flag is non-null and reads as set at entry, both
  \<^verbatim>\<open>extract_archive\<close> and \<^verbatim>\<open>compress_files\<close> return \<^verbatim>\<open>ERROR_OPERATION_CANCELLED\<close>, which is
  -9, and the world they leave differs from the one they found only in the read of the
  flag and one line in the error log: no session is created or opened, no directory is
  made or entered, nothing is written.
\<close>

theorem cancelled_at_entry:
  assumes "cancel_flag E = Some f" and "f (polls w) \<noteq> 0"
  shows "extract_archive E archive_path destination_path password w =
           (ERROR_OPERATION_CANCELLED,
            w\<lparr>polls := Suc (polls w),
              trace := trace w @ [Log ''extract_archive early cancel before start'']\<rparr>)
       \<and> compress_files depth E source_path archive_path format password w =
           Some (ERROR_OPERATION_CANCELLED,
                 w\<lparr>polls := Suc (polls w),
                   trace := trace w @ [Log ''compress_files early cancel before start'']\<rparr>)
       \<and> ERROR_OPERATION_CANCELLED = - 9"
  using assms
  by (simp add: extract_archive_def compress_files_def cancel_set_def flag_at_def emit_def
      poll_def ERROR_OPERATION_CANCELLED_def)

theorem cancelled_at_entry_witness:
  "extract_archive cancelled_env ''a.zip'' ''out'' None w0 =
     (- 9, w0\<lparr>polls := 1, trace := [Log ''extract_archive early cancel before start'']\<rparr>)
   \<and> compress_files 5 cancelled_env ''src'' ''a.zip'' 1 None w0 =
     Some (- 9, w0\<lparr>polls := 1, trace := [Log ''compress_files early cancel before start'']\<rparr>)"
  using cancelled_at_entry [where E = cancelled_env and f = "\<lambda>n. 1"
      and w = w0 and archive_path = "''a.zip''" and destination_path = "''out''"
      and password = None and depth = 5 and source_path = "''src''" and format = 1]
  by (simp add: cancelled_env_def env0_def w0_def)

section \<open>From the entry loop to the result of an extraction\<close>

text \<open>
  A run of \<^verbatim>\<open>extract_archive\<close> that gets as far as the entry loop returns what the loop
  leaves in \<^verbatim>\<open>result\<close>, after the code at \<^verbatim>\<open>cleanup\<close> has run with \<^verbatim>\<open>changed_dir\<close> set
  and both sessions non-null.
\<close>

lemma extract_archive_from_loop:
  assumes "\<not> cancel_set E w"
    and "password \<noteq> None \<longrightarrow> read_add_passphrase_status E = ARCHIVE_OK"
    and "read_open_status E archive_path = ARCHIVE_OK"
    and "getcwd_ok E"
    and "chdir_status E destination_path = 0"
  shows "extract_archive E archive_path destination_path password w =
           (fst (extract_loop E password (archive_contents E archive_path)
                   (at_loop E archive_path destination_path password w)),
            cleanup_extract E True (cwd w) True True
              (snd (extract_loop E password (archive_contents E archive_path)
                      (at_loop E archive_path destination_path password w))))"
proof -
  define w1 where "w1 = emit [ReadNew, ReadSupportFormatAll, ReadSupportFilterAll] (poll w)"
  define wp where "wp = (case password of None \<Rightarrow> w1 | Some p \<Rightarrow> emit [ReadAddPassphrase p] w1)"
  define w2 where "w2 = emit [WriteDiskNew,
                     WriteDiskSetOptions [ARCHIVE_EXTRACT_TIME, ARCHIVE_EXTRACT_PERM,
                                          ARCHIVE_EXTRACT_ACL, ARCHIVE_EXTRACT_FFLAGS],
                     WriteDiskSetStandardLookup,
                     ReadOpenFilename archive_path 10240] wp"
  define w3 where "w3 = (if stat_fs E destination_path = None
                     then emit [Mkdir destination_path 493] w2 else w2)"
  define w4 where "w4 = snd (chdir E destination_path w3)"
  define res where "res = extract_loop E password (archive_contents E archive_path) w4"
  have run: "extract_archive E archive_path destination_path password w =
               (fst res, cleanup_extract E True (cwd w3) True True (snd res))"
    using assms
    by (cases password)
       (simp_all add: extract_archive_def extract_opened_def Let_def chdir_def res_def w4_def
          w3_def w2_def wp_def w1_def split: prod.splits)
  have cwd3: "cwd w3 = cwd w"
    by (simp add: w3_def w2_def wp_def w1_def emit_def poll_def split: option.splits)
  have w4: "w4 = at_loop E archive_path destination_path password w"
    using assms(5)
    by (simp add: at_loop_def w4_def chdir_def w3_def w2_def wp_def w1_def emit_def poll_def
        split: option.splits)
  show ?thesis
    unfolding run cwd3 res_def w4 by (rule refl)
qed

section \<open>The data copier\<close>

lemma copy_data_prefix:
  assumes "k \<le> length bs"
    and "\<forall>i<k. \<not> flag_at E (polls w + i)"
    and "\<forall>i<k. r_status (bs ! i) \<noteq> ARCHIVE_EOF \<and> ARCHIVE_OK \<le> r_status (bs ! i)
            \<and> ARCHIVE_OK \<le> write_data_block_status E (block_calls w + i)"
  shows "copy_data E bs w = copy_data E (drop k bs) (copied k bs w)"
  using assms
proof (induction k arbitrary: bs w)
  case 0
  then show ?case by (simp add: copied_def)
next
  case (Suc k)
  then obtain b bs' where bs: "bs = b # bs'" by (cases bs) auto
  let ?w1 = "snd (archive_write_data_block E (buff b) (offset b) (poll w))"
  have nc: "\<not> cancel_set E w" using Suc.prems(2) by (auto simp: cancel_set_def)
  have b: "r_status b \<noteq> ARCHIVE_EOF" "ARCHIVE_OK \<le> r_status b"
    "ARCHIVE_OK \<le> write_data_block_status E (block_calls w)"
    using Suc.prems(3) bs by force+
  have step: "copy_data E bs w = copy_data E bs' ?w1"
    using nc b by (simp add: bs archive_write_data_block_def poll_def)
  have p: "polls ?w1 = Suc (polls w)" "block_calls ?w1 = Suc (block_calls w)"
    by (simp_all add: archive_write_data_block_def poll_def emit_def)
  have "copy_data E bs' ?w1 = copy_data E (drop k bs') (copied k bs' ?w1)"
  proof (rule Suc.IH)
    show "k \<le> length bs'" using Suc.prems(1) bs by simp
    show "\<forall>i<k. \<not> flag_at E (polls ?w1 + i)"
      using Suc.prems(2) p by (metis Suc_less_eq add_Suc_shift)
    show "\<forall>i<k. r_status (bs' ! i) \<noteq> ARCHIVE_EOF \<and> ARCHIVE_OK \<le> r_status (bs' ! i)
            \<and> ARCHIVE_OK \<le> write_data_block_status E (block_calls ?w1 + i)"
    proof (intro allI impI)
      fix i assume "i < k"
      then have "Suc i < Suc k" by simp
      with Suc.prems(3) have "r_status (bs ! Suc i) \<noteq> ARCHIVE_EOF
            \<and> ARCHIVE_OK \<le> r_status (bs ! Suc i)
            \<and> ARCHIVE_OK \<le> write_data_block_status E (block_calls w + Suc i)" by blast
      then show "r_status (bs' ! i) \<noteq> ARCHIVE_EOF \<and> ARCHIVE_OK \<le> r_status (bs' ! i)
            \<and> ARCHIVE_OK \<le> write_data_block_status E (block_calls ?w1 + i)"
        using p bs by simp
    qed
  qed
  moreover have "copied k bs' ?w1 = copied (Suc k) bs w"
    by (simp add: copied_def bs archive_write_data_block_def poll_def emit_def)
  ultimately show ?case using step bs by simp
qed

text \<open>
  C4. Let the copier have passed \<open>k\<close> blocks on (the flag read clear before each, each
  read and each write without error). If the flag then reads as set, the copier returns
  \<^verbatim>\<open>ERROR_OPERATION_CANCELLED\<close> at once: the flag was read before the next block, so the
  reader still has every block from the \<open>k\<close>-th on and exactly the first \<open>k\<close> blocks were
  written. If the flag reads clear and the reader then reports the end of the data, the
  copier returns \<^verbatim>\<open>ARCHIVE_OK\<close> and again only the first \<open>k\<close> blocks were written.
\<close>

theorem copy_data_cancel_and_eof:
  assumes "k \<le> length bs"
    and "\<forall>i<k. \<not> flag_at E (polls w + i)"
    and "\<forall>i<k. r_status (bs ! i) \<noteq> ARCHIVE_EOF \<and> ARCHIVE_OK \<le> r_status (bs ! i)
            \<and> ARCHIVE_OK \<le> write_data_block_status E (block_calls w + i)"
  shows "(flag_at E (polls w + k) \<longrightarrow>
            copy_data E bs w =
              (ERROR_OPERATION_CANCELLED, drop k bs,
               emit [Log ''copy_data detected cancel''] (poll (copied k bs w))))
       \<and> (\<not> flag_at E (polls w + k) \<and>
            (k = length bs \<or> (k < length bs \<and> r_status (bs ! k) = ARCHIVE_EOF)) \<longrightarrow>
            copy_data E bs w = (ARCHIVE_OK, drop (Suc k) bs, poll (copied k bs w)))"
proof -
  have pre: "copy_data E bs w = copy_data E (drop k bs) (copied k bs w)"
    using assms by (rule copy_data_prefix)
  have cs: "cancel_set E (copied k bs w) = flag_at E (polls w + k)"
    by (simp add: cancel_set_def copied_def)
  show ?thesis
  proof (cases "drop k bs")
    case Nil
    then have "k = length bs" using assms(1) by simp
    then show ?thesis using pre cs Nil by simp
  next
    case (Cons b bs')
    then have k: "k < length bs" by (cases "k < length bs") auto
    then have "drop k bs = bs ! k # drop (Suc k) bs" by (simp add: Cons_nth_drop_Suc)
    with Cons have b: "b = bs ! k" and bs': "bs' = drop (Suc k) bs" by simp_all
    show ?thesis using pre cs Cons k b bs' by simp
  qed
qed

theorem copy_data_cancel_and_eof_witness:
  "copy_data cancel_later_env [blk 0 ''ab'' 0, blk 0 ''cd'' 2] w0 =
     (- 9, [blk 0 ''cd'' 2],
      w0\<lparr>polls := 2, block_calls := 1,
         trace := [WriteDataBlock ''ab'' 0, Log ''copy_data detected cancel'']\<rparr>)
   \<and> copy_data env0 [blk 0 ''ab'' 0, blk 1 [] 0, blk 0 ''zz'' 9] w0 =
     (0, [blk 0 ''zz'' 9],
      w0\<lparr>polls := 2, block_calls := 1, trace := [WriteDataBlock ''ab'' 0]\<rparr>)"
proof (intro conjI)
  show "copy_data cancel_later_env [blk 0 ''ab'' 0, blk 0 ''cd'' 2] w0 =
     (- 9, [blk 0 ''cd'' 2],
      w0\<lparr>polls := 2, block_calls := 1,
         trace := [WriteDataBlock ''ab'' 0, Log ''copy_data detected cancel'']\<rparr>)"
    using copy_data_cancel_and_eof [of 1 "[blk 0 ''ab'' 0, blk 0 ''cd'' 2]" cancel_later_env w0]
    by (simp add: flag_at_def cancel_later_env_def env0_def w0_def blk_def copied_def poll_def
        emit_def archive_codes wrapper_codes)
  show "copy_data env0 [blk 0 ''ab'' 0, blk 1 [] 0, blk 0 ''zz'' 9] w0 =
     (0, [blk 0 ''zz'' 9],
      w0\<lparr>polls := 2, block_calls := 1, trace := [WriteDataBlock ''ab'' 0]\<rparr>)"
    using copy_data_cancel_and_eof [of 1 "[blk 0 ''ab'' 0, blk 1 [] 0, blk 0 ''zz'' 9]" env0 w0]
    by (simp add: flag_at_def env0_def w0_def blk_def copied_def poll_def emit_def
        archive_codes wrapper_codes)
qed

text \<open>
  C5, as the code has it. Let the loop of \<^verbatim>\<open>extract_archive\<close> reach the copier for an
  entry with data: the header read returned \<^verbatim>\<open>ARCHIVE_WARN\<close> or a status that is not
  negative and not \<^verbatim>\<open>ARCHIVE_EOF\<close>, the checks on encryption let the entry through, and
  the header was written without error. Let the copier have passed \<open>k\<close> blocks on. If
  the read of the next block, or else its write, returns a negative status \<open>r\<close>, the
  copier aborts: it returns \<open>r\<close> itself, for a read as for a write, it leaves every block
  after the failing one unread, and it has done nothing after the failure but log a
  failing write. The loop then leaves with \<^verbatim>\<open>ERROR_EXTRACT_FAILED\<close>, which is -4, in both
  cases, after one more line of the log and with nothing of the rest of the archive
  processed; only a status equal to -9 is taken for a cancellation and left as it is.
  What the loop leaves with is what \<^verbatim>\<open>extract_archive\<close> returns.
\<close>

theorem copy_failure_surfaces_extract_failed:
  assumes "\<forall>i \<le> Suc k. \<not> flag_at E (polls w + i)"
    and "h_status h = ARCHIVE_WARN \<or> (ARCHIVE_OK \<le> h_status h \<and> h_status h \<noteq> ARCHIVE_EOF)"
    and "is_encrypted (h_entry h) \<longrightarrow> password \<noteq> None \<and> ARCHIVE_OK \<le> h_status h"
    and "ARCHIVE_OK \<le> write_header_status E (hdr_calls w)"
    and "0 < e_size (h_entry h)"
    and "k < length (h_blocks h)"
    and "\<forall>i<k. r_status (h_blocks h ! i) \<noteq> ARCHIVE_EOF \<and> ARCHIVE_OK \<le> r_status (h_blocks h ! i)
            \<and> ARCHIVE_OK \<le> write_data_block_status E (block_calls w + i)"
    and "r_status (h_blocks h ! k) \<noteq> ARCHIVE_EOF"
    and "r = (if r_status (h_blocks h ! k) < ARCHIVE_OK then r_status (h_blocks h ! k)
              else write_data_block_status E (block_calls w + k))"
    and "r < ARCHIVE_OK"
  shows "copy_data E (h_blocks h) (header_written h w) =
           (r, drop (Suc k) (h_blocks h), copy_failed k (h_blocks h) (header_written h w))
       \<and> extract_loop E password (h # rest) w =
           (if r = ERROR_OPERATION_CANCELLED
            then (ERROR_OPERATION_CANCELLED, copy_failed k (h_blocks h) (header_written h w))
            else (ERROR_EXTRACT_FAILED,
                  emit [Log ''copy error''] (copy_failed k (h_blocks h) (header_written h w))))
       \<and> ERROR_EXTRACT_FAILED = - 4"
proof -
  let ?bs = "h_blocks h"
  define v where "v = header_written h w"
  define u where "u = copy_failed k ?bs v"
  have p: "polls v = Suc (polls w)" "block_calls v = block_calls w"
    by (simp_all add: v_def header_written_def)
  have pre: "copy_data E ?bs v = copy_data E (drop k ?bs) (copied k ?bs v)"
  proof (rule copy_data_prefix)
    show "k \<le> length ?bs" using assms(6) by simp
    show "\<forall>i<k. \<not> flag_at E (polls v + i)"
    proof (intro allI impI)
      fix i assume "i < k"
      then have "Suc i \<le> Suc k" by simp
      with assms(1) have "\<not> flag_at E (polls w + Suc i)" by blast
      then show "\<not> flag_at E (polls v + i)" using p by simp
    qed
    show "\<forall>i<k. r_status (?bs ! i) \<noteq> ARCHIVE_EOF \<and> ARCHIVE_OK \<le> r_status (?bs ! i)
            \<and> ARCHIVE_OK \<le> write_data_block_status E (block_calls v + i)"
      using assms(7) p by simp
  qed
  have dr: "drop k ?bs = ?bs ! k # drop (Suc k) ?bs"
    using assms(6) by (simp add: Cons_nth_drop_Suc)
  have nck: "\<not> cancel_set E (copied k ?bs v)"
  proof -
    have "\<not> flag_at E (polls w + Suc k)" using assms(1) by blast
    then show ?thesis using p by (simp add: cancel_set_def copied_def)
  qed
  have last: "copy_data E (?bs ! k # drop (Suc k) ?bs) (copied k ?bs v) =
                (r, drop (Suc k) ?bs, u)"
  proof (cases "r_status (?bs ! k) < ARCHIVE_OK")
    case True
    then show ?thesis
      using nck assms(8,9) by (simp add: u_def copy_failed_def copied_def poll_def)
  next
    case False
    then show ?thesis
      using nck assms(8,9,10) p
      by (simp add: u_def copy_failed_def copied_def poll_def emit_def
          archive_write_data_block_def)
  qed
  have cd: "copy_data E ?bs v = (r, drop (Suc k) ?bs, u)"
    using pre dr last by (simp only:)
  have nc: "\<not> cancel_set E w" using assms(1) by (auto simp: cancel_set_def)
  have wh: "archive_write_header E (h_entry h)
               (if h_status h = ARCHIVE_WARN then emit [Log ''warning''] (poll w) else poll w) =
              (write_header_status E (hdr_calls w), v)"
    by (simp add: v_def header_written_def archive_write_header_def poll_def emit_def)
  have s: "h_status h \<noteq> ARCHIVE_EOF" "h_status h \<noteq> ARCHIVE_RETRY"
    "\<not> (is_encrypted (h_entry h) \<and> password = None)"
    "\<not> (is_encrypted (h_entry h) \<and> h_status h < ARCHIVE_OK)"
    "\<not> (h_status h \<noteq> ARCHIVE_WARN \<and> h_status h < ARCHIVE_OK)"
    using assms(2,3) by (auto simp: archive_codes)
  have w: "\<not> write_header_status E (hdr_calls w) < ARCHIVE_OK"
    using assms(4) by simp
  have lp: "extract_loop E password (h # rest) w =
           (if r = ERROR_OPERATION_CANCELLED then (ERROR_OPERATION_CANCELLED, u)
            else (ERROR_EXTRACT_FAILED, emit [Log ''copy error''] u))"
  proof (cases "h_status h = ARCHIVE_WARN")
    case True
    then have "\<not> is_encrypted (h_entry h)" using s(4) by (simp add: archive_codes)
    moreover have "archive_write_header E (h_entry h) (emit [Log ''warning''] (poll w)) =
              (write_header_status E (hdr_calls w), v)"
      using wh True by simp
    ultimately show ?thesis
      using True nc s(1,2) w assms(5,10) by (simp add: cd)
  next
    case False
    then have "\<not> h_status h < ARCHIVE_OK" using s(5) by simp
    moreover have "archive_write_header E (h_entry h) (poll w) =
              (write_header_status E (hdr_calls w), v)"
      using wh False by simp
    ultimately show ?thesis
      using False nc s(1,2,3) w assms(5,10) by (auto simp: cd)
  qed
  show ?thesis
    using cd lp unfolding u_def v_def by (simp add: ERROR_EXTRACT_FAILED_def)
qed

theorem copy_failure_surfaces_extract_failed_witness:
  "copy_data env0 [blk 0 ''hi'' 0, blk (- 30) [] 2, blk 0 ''zz'' 2]
     (w0\<lparr>polls := 1, hdr_calls := 1,
         trace := [Log ''warning'', WriteHeader (ent ''a'' 4 False)]\<rparr>) =
     (- 30, [blk 0 ''zz'' 2],
      w0\<lparr>polls := 3, hdr_calls := 1, block_calls := 1,
         trace := [Log ''warning'', WriteHeader (ent ''a'' 4 False), WriteDataBlock ''hi'' 0]\<rparr>)
   \<and> extract_loop env0 None
       [hdr (- 20) (ent ''a'' 4 False) [blk 0 ''hi'' 0, blk (- 30) [] 2, blk 0 ''zz'' 2],
        hdr 0 (ent ''c'' 0 False) []] w0 =
     (- 4,
      w0\<lparr>polls := 3, hdr_calls := 1, block_calls := 1,
         trace := [Log ''warning'', WriteHeader (ent ''a'' 4 False), WriteDataBlock ''hi'' 0,
                   Log ''copy error'']\<rparr>)
   \<and> copy_data write_fail_env [blk 0 ''hi'' 0, blk 0 ''zz'' 2]
       (w0\<lparr>polls := 1, hdr_calls := 1, trace := [WriteHeader (ent ''a'' 4 False)]\<rparr>) =
     (- 30, [blk 0 ''zz'' 2],
      w0\<lparr>polls := 2, hdr_calls := 1, block_calls := 1,
         trace := [WriteHeader (ent ''a'' 4 False), WriteDataBlock ''hi'' 0,
                   Log ''write error'']\<rparr>)
   \<and> extract_loop write_fail_env None
       [hdr 0 (ent ''a'' 4 False) [blk 0 ''hi'' 0, blk 0 ''zz'' 2],
        hdr 0 (ent ''c'' 0 False) []] w0 =
     (- 4,
      w0\<lparr>polls := 2, hdr_calls := 1, block_calls := 1,
         trace := [WriteHeader (ent ''a'' 4 False), WriteDataBlock ''hi'' 0,
                   Log ''write error'', Log ''copy error'']\<rparr>)"
proof -
  let ?bh = "[blk 0 ''hi'' 0, blk (- 30) [] 2, blk 0 ''zz'' 2]"
  let ?bg = "[blk 0 ''hi'' 0, blk 0 ''zz'' 2]"
  let ?h = "hdr (- 20) (ent ''a'' 4 False) ?bh"
  let ?g = "hdr 0 (ent ''a'' 4 False) ?bg"
  let ?rest = "[hdr 0 (ent ''c'' 0 False) []]"
  have 1: "cancel_flag env0 = None" "cancel_flag write_fail_env = None"
    by (simp_all add: write_fail_env_def one_entry_env_def env0_def)
  have 2: "write_header_status env0 n = 0" "write_data_block_status env0 n = 0"
    "write_header_status write_fail_env n = 0"
    "write_data_block_status write_fail_env n = - 30" for n
    by (simp_all add: write_fail_env_def one_entry_env_def env0_def)
  have a: "copy_data env0 (h_blocks ?h) (header_written ?h w0) =
             (- 30, drop (Suc 1) (h_blocks ?h), copy_failed 1 (h_blocks ?h) (header_written ?h w0))
         \<and> extract_loop env0 None (?h # ?rest) w0 =
             (if (- 30 :: int) = ERROR_OPERATION_CANCELLED
              then (ERROR_OPERATION_CANCELLED, copy_failed 1 (h_blocks ?h) (header_written ?h w0))
              else (ERROR_EXTRACT_FAILED,
                    emit [Log ''copy error''] (copy_failed 1 (h_blocks ?h) (header_written ?h w0))))
         \<and> ERROR_EXTRACT_FAILED = - 4"
  proof (rule copy_failure_surfaces_extract_failed [where k = 1])
    show "\<forall>i\<le>Suc 1. \<not> flag_at env0 (polls w0 + i)"
      by (simp add: no_flag_no_cancel 1)
    show "h_status ?h = ARCHIVE_WARN \<or> (ARCHIVE_OK \<le> h_status ?h \<and> h_status ?h \<noteq> ARCHIVE_EOF)"
      by (simp add: hdr_def archive_codes)
    show "is_encrypted (h_entry ?h) \<longrightarrow>
            (None :: string option) \<noteq> None \<and> ARCHIVE_OK \<le> h_status ?h"
      by (simp add: hdr_def ent_def)
    show "ARCHIVE_OK \<le> write_header_status env0 (hdr_calls w0)"
      by (simp add: 2 ARCHIVE_OK_def)
    show "0 < e_size (h_entry ?h)" by (simp add: hdr_def ent_def)
    show "1 < length (h_blocks ?h)" by (simp add: hdr_def)
    show "\<forall>i<1. r_status (h_blocks ?h ! i) \<noteq> ARCHIVE_EOF \<and> ARCHIVE_OK \<le> r_status (h_blocks ?h ! i)
            \<and> ARCHIVE_OK \<le> write_data_block_status env0 (block_calls w0 + i)"
      by (simp add: hdr_def blk_def 2 archive_codes)
    show "r_status (h_blocks ?h ! 1) \<noteq> ARCHIVE_EOF"
      by (simp add: hdr_def blk_def ARCHIVE_EOF_def)
    show "- 30 = (if r_status (h_blocks ?h ! 1) < ARCHIVE_OK then r_status (h_blocks ?h ! 1)
              else write_data_block_status env0 (block_calls w0 + 1))"
      by (simp add: hdr_def blk_def ARCHIVE_OK_def)
    show "(- 30 :: int) < ARCHIVE_OK" by (simp add: ARCHIVE_OK_def)
  qed
  have b: "copy_data write_fail_env (h_blocks ?g) (header_written ?g w0) =
             (- 30, drop (Suc 0) (h_blocks ?g), copy_failed 0 (h_blocks ?g) (header_written ?g w0))
         \<and> extract_loop write_fail_env None (?g # ?rest) w0 =
             (if (- 30 :: int) = ERROR_OPERATION_CANCELLED
              then (ERROR_OPERATION_CANCELLED, copy_failed 0 (h_blocks ?g) (header_written ?g w0))
              else (ERROR_EXTRACT_FAILED,
                    emit [Log ''copy error''] (copy_failed 0 (h_blocks ?g) (header_written ?g w0))))
         \<and> ERROR_EXTRACT_FAILED = - 4"
  proof (rule copy_failure_surfaces_extract_failed [where k = 0])
    show "\<forall>i\<le>Suc 0. \<not> flag_at write_fail_env (polls w0 + i)"
      by (simp add: no_flag_no_cancel 1)
    show "h_status ?g = ARCHIVE_WARN \<or> (ARCHIVE_OK \<le> h_status ?g \<and> h_status ?g \<noteq> ARCHIVE_EOF)"
      by (simp add: hdr_def archive_codes)
    show "is_encrypted (h_entry ?g) \<longrightarrow>
            (None :: string option) \<noteq> None \<and> ARCHIVE_OK \<le> h_status ?g"
      by (simp add: hdr_def ent_def)
    show "ARCHIVE_OK \<le> write_header_status write_fail_env (hdr_calls w0)"
      by (simp add: 2 ARCHIVE_OK_def)
    show "0 < e_size (h_entry ?g)" by (simp add: hdr_def ent_def)
    show "0 < length (h_blocks ?g)" by (simp add: hdr_def)
    show "\<forall>i<0. r_status (h_blocks ?g ! i) \<noteq> ARCHIVE_EOF \<and> ARCHIVE_OK \<le> r_status (h_blocks ?g ! i)
            \<and> ARCHIVE_OK \<le> write_data_block_status write_fail_env (block_calls w0 + i)"
      by simp
    show "r_status (h_blocks ?g ! 0) \<noteq> ARCHIVE_EOF"
      by (simp add: hdr_def blk_def ARCHIVE_EOF_def)
    show "- 30 = (if r_status (h_blocks ?g ! 0) < ARCHIVE_OK then r_status (h_blocks ?g ! 0)
              else write_data_block_status write_fail_env (block_calls w0 + 0))"
      by (simp add: hdr_def blk_def ARCHIVE_OK_def 2)
    show "(- 30 :: int) < ARCHIVE_OK" by (simp add: ARCHIVE_OK_def)
  qed
  have c: "h_blocks ?h = ?bh" "h_blocks ?g = ?bg"
    by (simp_all add: hdr_def)
  have d: "header_written ?h w0 =
             w0\<lparr>polls := 1, hdr_calls := 1,
                trace := [Log ''warning'', WriteHeader (ent ''a'' 4 False)]\<rparr>"
    "header_written ?g w0 =
             w0\<lparr>polls := 1, hdr_calls := 1, trace := [WriteHeader (ent ''a'' 4 False)]\<rparr>"
    by (simp_all add: header_written_def hdr_def w0_def archive_codes)
  have e: "copy_failed 1 ?bh
             (w0\<lparr>polls := 1, hdr_calls := 1,
                 trace := [Log ''warning'', WriteHeader (ent ''a'' 4 False)]\<rparr>) =
           w0\<lparr>polls := 3, hdr_calls := 1, block_calls := 1,
              trace := [Log ''warning'', WriteHeader (ent ''a'' 4 False),
                        WriteDataBlock ''hi'' 0]\<rparr>"
    "copy_failed 0 ?bg
             (w0\<lparr>polls := 1, hdr_calls := 1, trace := [WriteHeader (ent ''a'' 4 False)]\<rparr>) =
           w0\<lparr>polls := 2, hdr_calls := 1, block_calls := 1,
              trace := [WriteHeader (ent ''a'' 4 False), WriteDataBlock ''hi'' 0,
                        Log ''write error'']\<rparr>"
    by (simp_all add: copy_failed_def copied_def blk_def w0_def archive_codes)
  have f: "drop (Suc 1) ?bh = [blk 0 ''zz'' 2]" "drop (Suc 0) ?bg = [blk 0 ''zz'' 2]"
    by simp_all
  have g: "(if (- 30 :: int) = ERROR_OPERATION_CANCELLED then (ERROR_OPERATION_CANCELLED, x)
            else (ERROR_EXTRACT_FAILED, y)) = (- 4, y)" for x y :: world
    by (simp add: wrapper_codes)
  have k: "emit [Log ''copy error'']
             (w0\<lparr>polls := 3, hdr_calls := 1, block_calls := 1,
                 trace := [Log ''warning'', WriteHeader (ent ''a'' 4 False),
                           WriteDataBlock ''hi'' 0]\<rparr>) =
           w0\<lparr>polls := 3, hdr_calls := 1, block_calls := 1,
              trace := [Log ''warning'', WriteHeader (ent ''a'' 4 False), WriteDataBlock ''hi'' 0,
                        Log ''copy error'']\<rparr>"
    "emit [Log ''copy error'']
             (w0\<lparr>polls := 2, hdr_calls := 1, block_calls := 1,
                 trace := [WriteHeader (ent ''a'' 4 False), WriteDataBlock ''hi'' 0,
                           Log ''write error'']\<rparr>) =
           w0\<lparr>polls := 2, hdr_calls := 1, block_calls := 1,
              trace := [WriteHeader (ent ''a'' 4 False), WriteDataBlock ''hi'' 0,
                        Log ''write error'', Log ''copy error'']\<rparr>"
    by (simp_all add: emit_def w0_def)
  note a' = a [unfolded c d e f g k]
  note b' = b [unfolded c d e f g k]
  from a' b' show ?thesis by blast
qed

text \<open>
  As the specification words it, C5 does not hold: a failing read of an entry's data
  makes \<^verbatim>\<open>extract_archive\<close> return -4 and not \<^verbatim>\<open>ERROR_READ_ENTRY_FAILED\<close>, and a failing
  write makes it return -4 and not the status -30 of the write.
\<close>

theorem copy_failure_counterexample:
  "archive_contents read_fail_env ''a.zip'' = [hdr 0 (ent ''a'' 2 False) [blk (- 30) [] 0]]
   \<and> fst (extract_archive read_fail_env ''a.zip'' ''out'' None w0) = ERROR_EXTRACT_FAILED
   \<and> ERROR_EXTRACT_FAILED \<noteq> ERROR_READ_ENTRY_FAILED
   \<and> archive_contents write_fail_env ''a.zip'' = [hdr 0 (ent ''a'' 2 False) [blk 0 ''hi'' 0]]
   \<and> write_data_block_status write_fail_env 0 = - 30
   \<and> fst (extract_archive write_fail_env ''a.zip'' ''out'' None w0) = ERROR_EXTRACT_FAILED
   \<and> ERROR_EXTRACT_FAILED \<noteq> - 30"
  by (simp add: read_fail_env_def write_fail_env_def one_entry_env_def env0_def w0_def
      extract_archive_def extract_opened_def cleanup_extract_def chdir_def
      cancel_set_def flag_at_def poll_def emit_def archive_write_header_def
      archive_write_data_block_def hdr_def ent_def blk_def archive_codes wrapper_codes)

section \<open>Encrypted entries\<close>

text \<open>
  C2, as the code has it. In the entry loop of \<^verbatim>\<open>extract_archive\<close>, with the flag
  clear, let a header read return a status that is neither \<^verbatim>\<open>ARCHIVE_EOF\<close> nor
  \<^verbatim>\<open>ARCHIVE_RETRY\<close> and leave an entry whose encrypted flag is set. With a null
  password the loop aborts with \<^verbatim>\<open>ERROR_PASSWORD_REQUIRED\<close>, which is -6; with a password
  and a negative status it aborts with \<^verbatim>\<open>ERROR_WRONG_PASSWORD\<close>, which is -7. In both
  cases nothing of the rest of the archive is processed: only a log line follows the read
  of the flag. A header read that returns \<^verbatim>\<open>ARCHIVE_RETRY\<close> is logged and skipped before
  the entry is looked at: whatever the entry and the password are, the loop goes on with
  the headers that follow, one read of the flag and one line of the log later. What the
  loop leaves with is what \<^verbatim>\<open>extract_archive\<close> returns.
\<close>

theorem encrypted_entry_aborts:
  assumes "\<not> cancel_set E w"
  shows "(h_status h \<noteq> ARCHIVE_EOF \<and> h_status h \<noteq> ARCHIVE_RETRY \<and> is_encrypted (h_entry h)
            \<and> password = None \<longrightarrow>
            extract_loop E password (h # rest) w =
              (ERROR_PASSWORD_REQUIRED,
               emit [Log ''entry is encrypted, password needed''] (poll w)))
       \<and> (h_status h \<noteq> ARCHIVE_EOF \<and> h_status h \<noteq> ARCHIVE_RETRY \<and> is_encrypted (h_entry h)
            \<and> password \<noteq> None \<and> h_status h < ARCHIVE_OK \<longrightarrow>
            extract_loop E password (h # rest) w =
              (ERROR_WRONG_PASSWORD,
               emit [Log ''entry is encrypted, password may be wrong''] (poll w)))
       \<and> (h_status h = ARCHIVE_RETRY \<longrightarrow>
            extract_loop E password (h # rest) w =
              extract_loop E password rest (emit [Log ''retry''] (poll w)))
       \<and> ERROR_PASSWORD_REQUIRED = - 6 \<and> ERROR_WRONG_PASSWORD = - 7
       \<and> ARCHIVE_RETRY < 0"
  using assms by (simp add: wrapper_codes archive_codes)

theorem encrypted_entry_aborts_witness:
  "extract_loop env0 None [hdr (- 30) (ent ''b'' 1 True) [], hdr 0 (ent ''c'' 1 False) []] w0 =
     (- 6, emit [Log ''entry is encrypted, password needed''] (poll w0))
   \<and> extract_loop env0 (Some ''pw'')
        [hdr (- 30) (ent ''b'' 1 True) [], hdr 0 (ent ''c'' 1 False) []] w0 =
     (- 7, emit [Log ''entry is encrypted, password may be wrong''] (poll w0))
   \<and> extract_loop env0 None [hdr (- 10) (ent ''s'' 1 True) [], hdr 0 (ent ''c'' 0 False) []] w0 =
     extract_loop env0 None [hdr 0 (ent ''c'' 0 False) []] (emit [Log ''retry''] (poll w0))
   \<and> extract_loop env0 None [hdr 0 (ent ''c'' 0 False) []] (emit [Log ''retry''] (poll w0)) =
     (0, w0\<lparr>polls := 3, hdr_calls := 1,
            trace := [Log ''retry'', WriteHeader (ent ''c'' 0 False)]\<rparr>)"
proof -
  let ?h = "hdr (- 30) (ent ''b'' 1 True) []"
  let ?g = "hdr (- 10) (ent ''s'' 1 True) []"
  have nc: "\<not> cancel_set env0 w0"
    by (simp add: cancel_set_def flag_at_def env0_def)
  have h: "h_status ?h \<noteq> ARCHIVE_EOF" "h_status ?h \<noteq> ARCHIVE_RETRY" "is_encrypted (h_entry ?h)"
    "h_status ?h < ARCHIVE_OK" "h_status ?g = ARCHIVE_RETRY"
    by (simp_all add: hdr_def ent_def archive_codes)
  have c: "ERROR_PASSWORD_REQUIRED = - 6" "ERROR_WRONG_PASSWORD = - 7"
    by (simp_all add: wrapper_codes)
  note t = encrypted_entry_aborts [OF nc, where rest = "[hdr 0 (ent ''c'' 1 False) []]" and h = ?h]
  note u = encrypted_entry_aborts [OF nc, where rest = "[hdr 0 (ent ''c'' 0 False) []]" and h = ?g
      and password = None]
  have 1: "extract_loop env0 None [?h, hdr 0 (ent ''c'' 1 False) []] w0 =
          (ERROR_PASSWORD_REQUIRED, emit [Log ''entry is encrypted, password needed''] (poll w0))"
    using t [of None] h by blast
  have 2: "extract_loop env0 (Some ''pw'') [?h, hdr 0 (ent ''c'' 1 False) []] w0 =
          (ERROR_WRONG_PASSWORD,
           emit [Log ''entry is encrypted, password may be wrong''] (poll w0))"
    using t [of "Some ''pw''"] h by blast
  have 3: "extract_loop env0 None [?g, hdr 0 (ent ''c'' 0 False) []] w0 =
          extract_loop env0 None [hdr 0 (ent ''c'' 0 False) []] (emit [Log ''retry''] (poll w0))"
    using u h(5) by blast
  have 4: "extract_loop env0 None [hdr 0 (ent ''c'' 0 False) []] (emit [Log ''retry''] (poll w0)) =
     (0, w0\<lparr>polls := 3, hdr_calls := 1,
            trace := [Log ''retry'', WriteHeader (ent ''c'' 0 False)]\<rparr>)"
    by (simp add: env0_def w0_def cancel_set_def flag_at_def poll_def emit_def
        archive_write_header_def hdr_def ent_def archive_codes wrapper_codes)
  from 1 2 3 4 show ?thesis unfolding c by blast
qed

text \<open>
  As the specification words it, C2 does not hold where the header read returns
  \<^verbatim>\<open>ARCHIVE_RETRY\<close>, a negative status: the loop goes on to the next header before it
  looks at the entry, so an encrypted entry left by such a read aborts nothing, with or
  without a password, and the run ends in success with the retry in its log.
\<close>

theorem encrypted_entry_counterexample:
  "archive_contents retry_env ''a.zip'' = [hdr (- 10) (ent ''s'' 1 True) []]
   \<and> is_encrypted (h_entry (hdr (- 10) (ent ''s'' 1 True) []))
   \<and> h_status (hdr (- 10) (ent ''s'' 1 True) []) < 0
   \<and> extract_archive retry_env ''a.zip'' ''out'' None w0 =
       (SUCCESS,
        w0\<lparr>polls := 3,
           trace := reader_setup None @ disk_setup ''a.zip'' @ [Mkdir ''out'' 493, Chdir ''out'']
                    @ [Log ''retry'']
                    @ [Chdir ''/home'', ReadClose, ReadFree, WriteClose, WriteFree]\<rparr>)
   \<and> extract_archive retry_env ''a.zip'' ''out'' (Some ''pw'') w0 =
       (SUCCESS,
        w0\<lparr>polls := 3,
           trace := reader_setup (Some ''pw'') @ disk_setup ''a.zip''
                    @ [Mkdir ''out'' 493, Chdir ''out'']
                    @ [Log ''retry'']
                    @ [Chdir ''/home'', ReadClose, ReadFree, WriteClose, WriteFree]\<rparr>)
   \<and> SUCCESS \<noteq> ERROR_PASSWORD_REQUIRED \<and> SUCCESS \<noteq> ERROR_WRONG_PASSWORD"
  by (simp add: retry_env_def env0_def w0_def extract_archive_def extract_opened_def
      cleanup_extract_def chdir_def cancel_set_def flag_at_def poll_def emit_def
      reader_setup_def disk_setup_def hdr_def ent_def archive_codes wrapper_codes)

section \<open>The encryption probe\<close>

lemma scan_headers_fst:
  "fst (scan_headers hs w) =
     (\<exists>h \<in> set (takeWhile (\<lambda>h. h_status h = ARCHIVE_OK) hs). is_encrypted (h_entry h))"
  by (induction hs arbitrary: w) auto

text \<open>
  C3. \<^verbatim>\<open>check_archive_encryption\<close> returns \<^verbatim>\<open>ERROR_OPEN_FILE_FAILED\<close>, which is -2, when
  the archive cannot be opened. Otherwise it returns \<^verbatim>\<open>ENCRYPTION_PRESENT\<close>, which is 1,
  if one of the entries before the first header read with a status other than
  \<^verbatim>\<open>ARCHIVE_OK\<close> has the encrypted flag set, and \<^verbatim>\<open>ENCRYPTION_NONE\<close>, which is 0, if none
  has: a failing header read ends the scan as the end of the archive does, and no error
  code comes out of it.
\<close>

theorem check_archive_encryption_result:
  "fst (check_archive_encryption E archive_path w) =
     (if read_open_status E archive_path \<noteq> ARCHIVE_OK then ERROR_OPEN_FILE_FAILED
      else if \<exists>h \<in> set (takeWhile (\<lambda>h. h_status h = ARCHIVE_OK)
                             (archive_contents E archive_path)).
                is_encrypted (h_entry h)
           then ENCRYPTION_PRESENT
           else ENCRYPTION_NONE)
   \<and> ERROR_OPEN_FILE_FAILED = - 2 \<and> ENCRYPTION_PRESENT = 1 \<and> ENCRYPTION_NONE = 0"
  using scan_headers_fst [of "archive_contents E archive_path"]
  by (simp add: check_archive_encryption_def Let_def wrapper_codes split: prod.splits)
     (metis fst_conv)

theorem check_archive_encryption_result_witness:
  "fst (check_archive_encryption failing_header_env ''a.zip'' w0) = 0
   \<and> fst (check_archive_encryption encrypted_env ''a.zip'' w0) = 1
   \<and> fst (check_archive_encryption unopenable_env ''a.zip'' w0) = - 2"
proof (intro conjI)
  show "fst (check_archive_encryption failing_header_env ''a.zip'' w0) = 0"
    using check_archive_encryption_result [of failing_header_env "''a.zip''" w0]
    by (simp add: failing_header_env_def env0_def hdr_def ent_def archive_codes wrapper_codes)
  show "fst (check_archive_encryption encrypted_env ''a.zip'' w0) = 1"
    using check_archive_encryption_result [of encrypted_env "''a.zip''" w0]
    by (simp add: encrypted_env_def env0_def hdr_def ent_def archive_codes wrapper_codes)
  show "fst (check_archive_encryption unopenable_env ''a.zip'' w0) = - 2"
    using check_archive_encryption_result [of unopenable_env "''a.zip''" w0]
    by (simp add: unopenable_env_def env0_def hdr_def ent_def archive_codes wrapper_codes)
qed

section \<open>The directory walker\<close>

text \<open>A walk that has a result has the same result under any larger bound on its depth.\<close>

lemma walker_depth_mono:
  "add_directory_to_archive depth E dir_path parent_path w = Some x \<Longrightarrow>
     add_directory_to_archive (Suc depth) E dir_path parent_path w = Some x"
  "readdir_loop depth E dir_path parent_path names w = Some x \<Longrightarrow>
     readdir_loop (Suc depth) E dir_path parent_path names w = Some x"
proof (induction depth E dir_path parent_path w and depth E dir_path parent_path names w
    arbitrary: x and x rule: add_directory_to_archive_readdir_loop.induct)
  case (1 E dir_path parent_path w)
  then show ?case by simp
next
  case (2 depth E dir_path parent_path w)
  then show ?case by (cases "opendir_fs E dir_path") simp_all
next
  case (3 depth E dir_path parent_path w)
  then show ?case by simp
next
  case (4 depth E dir_path parent_path d_name rest w)
  from "4.prems" show ?case
    using "4.IH"
    by (auto split: if_split_asm option.split_asm prod.split_asm)
qed


lemma all_stat_failures:
  assumes "\<forall>i<length names. \<not> flag_at E (polls w + i)"
    and "\<forall>n\<in>set names. n \<noteq> ''.'' \<and> n \<noteq> ''..'' \<longrightarrow>
           stat_fs E (snprintf_512 (dir_path @ ''/'' @ n)) = None"
  shows "readdir_loop depth E dir_path parent_path names w =
           Some (ARCHIVE_OK,
                 w\<lparr>polls := polls w + length names,
                   trace := trace w @
                     map (\<lambda>n. Log ''cannot stat file'')
                       (filter (\<lambda>n. n \<noteq> ''.'' \<and> n \<noteq> ''..'') names)\<rparr>)"
  using assms
proof (induction names arbitrary: w)
  case Nil
  then show ?case by simp
next
  case (Cons n names)
  have nc: "\<not> cancel_set E w" using Cons.prems(1) by (auto simp: cancel_set_def)
  have fl: "\<forall>i<length names. \<not> flag_at E (Suc (polls w) + i)"
    using Cons.prems(1) by auto
  show ?case
  proof (cases "n = ''.'' \<or> n = ''..''")
    case True
    have "readdir_loop depth E dir_path parent_path (n # names) w =
          readdir_loop depth E dir_path parent_path names (poll w)"
      using nc True by auto
    also have "\<dots> = Some (ARCHIVE_OK,
                 (poll w)\<lparr>polls := polls (poll w) + length names,
                   trace := trace (poll w) @
                     map (\<lambda>n. Log ''cannot stat file'')
                       (filter (\<lambda>n. n \<noteq> ''.'' \<and> n \<noteq> ''..'') names)\<rparr>)"
      using Cons.prems(2) fl by (intro Cons.IH) (simp_all add: poll_def)
    finally show ?thesis using True by (auto simp: poll_def)
  next
    case False
    then have st: "stat_fs E (snprintf_512 (dir_path @ ''/'' @ n)) = None"
      using Cons.prems(2) by simp
    let ?v = "emit [Log ''cannot stat file''] (poll w)"
    have "readdir_loop depth E dir_path parent_path (n # names) w =
          readdir_loop depth E dir_path parent_path names ?v"
      using nc False st by simp
    also have "\<dots> = Some (ARCHIVE_OK,
                 ?v\<lparr>polls := polls ?v + length names,
                   trace := trace ?v @
                     map (\<lambda>n. Log ''cannot stat file'')
                       (filter (\<lambda>n. n \<noteq> ''.'' \<and> n \<noteq> ''..'') names)\<rparr>)"
      using Cons.prems(2) fl by (intro Cons.IH) (simp_all add: poll_def emit_def)
    finally show ?thesis using False by (simp add: poll_def emit_def)
  qed
qed

text \<open>
  C6. In the \<^verbatim>\<open>readdir\<close> loop of \<^verbatim>\<open>add_directory_to_archive\<close>, a child whose \<^verbatim>\<open>stat\<close>
  fails is logged and skipped: the loop goes on with the remaining children, from a
  world that differs only in the read of the flag and the log line. So a listing in
  which every child fails \<^verbatim>\<open>stat\<close> is walked to its end with \<^verbatim>\<open>ARCHIVE_OK\<close> and nothing
  written (the flag reading clear throughout). A directory that cannot be opened for
  listing makes the walk return \<^verbatim>\<open>ARCHIVE_FATAL\<close> at once, whatever depth is left.
\<close>

theorem stat_failure_skips_child:
  "(\<not> cancel_set E w \<and> d_name \<noteq> ''.'' \<and> d_name \<noteq> ''..''
      \<and> stat_fs E (snprintf_512 (dir_path @ ''/'' @ d_name)) = None \<longrightarrow>
      readdir_loop depth E dir_path parent_path (d_name # rest) w =
        readdir_loop depth E dir_path parent_path rest (emit [Log ''cannot stat file''] (poll w)))
   \<and> ((\<forall>i<length names. \<not> flag_at E (polls w + i))
      \<and> (\<forall>n\<in>set names. n \<noteq> ''.'' \<and> n \<noteq> ''..'' \<longrightarrow>
             stat_fs E (snprintf_512 (dir_path @ ''/'' @ n)) = None) \<longrightarrow>
      readdir_loop depth E dir_path parent_path names w =
        Some (ARCHIVE_OK,
              w\<lparr>polls := polls w + length names,
                trace := trace w @
                  map (\<lambda>n. Log ''cannot stat file'')
                    (filter (\<lambda>n. n \<noteq> ''.'' \<and> n \<noteq> ''..'') names)\<rparr>))
   \<and> (opendir_fs E dir_path = None \<longrightarrow>
        add_directory_to_archive (Suc depth) E dir_path parent_path w =
          Some (ARCHIVE_FATAL, emit [Log ''cannot open directory''] w))"
proof (intro conjI impI)
  assume "\<not> cancel_set E w \<and> d_name \<noteq> ''.'' \<and> d_name \<noteq> ''..''
      \<and> stat_fs E (snprintf_512 (dir_path @ ''/'' @ d_name)) = None"
  then show "readdir_loop depth E dir_path parent_path (d_name # rest) w =
        readdir_loop depth E dir_path parent_path rest (emit [Log ''cannot stat file''] (poll w))"
    by simp
next
  assume a: "(\<forall>i<length names. \<not> flag_at E (polls w + i))
      \<and> (\<forall>n\<in>set names. n \<noteq> ''.'' \<and> n \<noteq> ''..'' \<longrightarrow>
             stat_fs E (snprintf_512 (dir_path @ ''/'' @ n)) = None)"
  show "readdir_loop depth E dir_path parent_path names w =
        Some (ARCHIVE_OK,
              w\<lparr>polls := polls w + length names,
                trace := trace w @
                  map (\<lambda>n. Log ''cannot stat file'')
                    (filter (\<lambda>n. n \<noteq> ''.'' \<and> n \<noteq> ''..'') names)\<rparr>)"
    by (rule all_stat_failures [OF conjunct1 [OF a] conjunct2 [OF a]])
next
  assume "opendir_fs E dir_path = None"
  then show "add_directory_to_archive (Suc depth) E dir_path parent_path w =
          Some (ARCHIVE_FATAL, emit [Log ''cannot open directory''] w)"
    by simp
qed

theorem stat_failure_skips_child_witness:
  "add_directory_to_archive 3 gone_child_env ''d'' None w0 =
     Some (0, w0\<lparr>polls := 4, hdr_calls := 1, data_calls := 1,
                trace := [Log ''cannot stat file'', WriteHeader (file_entry ''b'' reg_stat),
                          WriteData ''hi'']\<rparr>)
   \<and> readdir_loop 2 gone_child_env ''d'' None [''.'', ''gone''] w0 =
     Some (0, w0\<lparr>polls := 2, trace := [Log ''cannot stat file'']\<rparr>)
   \<and> add_directory_to_archive 3 gone_child_env ''x'' None w0 =
     Some (- 30, w0\<lparr>trace := [Log ''cannot open directory'']\<rparr>)"
proof -
  have e: "cancel_flag gone_child_env = None"
    "opendir_fs gone_child_env ''d'' = Some [''.'', ''..'', ''gone'', ''b'']"
    "opendir_fs gone_child_env ''x'' = None"
    "stat_fs gone_child_env ''d/gone'' = None" "stat_fs gone_child_env ''d/b'' = Some reg_stat"
    "fopen_fs gone_child_env ''d/b'' = Some ''hi''"
    "write_header_status gone_child_env = (\<lambda>n. 0)"
    by (simp_all add: gone_child_env_def env0_def)
  have c: "\<not> cancel_set gone_child_env w" for w
    by (simp add: cancel_set_def flag_at_def e)
  have p: "snprintf_512 ''d/gone'' = ''d/gone''"
    by (simp add: snprintf_512_def)
  note t = stat_failure_skips_child [where E = gone_child_env and dir_path = "''d''"
      and parent_path = None and depth = 2 and d_name = "''gone''" and rest = "[''b'']"
      and names = "[''.'', ''gone'']"]
  have skip: "readdir_loop 2 gone_child_env ''d'' None [''gone'', ''b''] (poll (poll w0)) =
        readdir_loop 2 gone_child_env ''d'' None [''b'']
          (emit [Log ''cannot stat file''] (poll (poll (poll w0))))"
    by (rule t [where w = "poll (poll w0)", THEN conjunct1, THEN mp]) (simp add: c p e)
  have "readdir_loop 2 gone_child_env ''d'' None [''.'', ''gone''] w0 =
      Some (ARCHIVE_OK,
            w0\<lparr>polls := polls w0 + length [''.'', ''gone''],
               trace := trace w0 @ map (\<lambda>n. Log ''cannot stat file'')
                  (filter (\<lambda>n. n \<noteq> ''.'' \<and> n \<noteq> ''..'') [''.'', ''gone''])\<rparr>)"
    by (rule t [where w = w0, THEN conjunct2, THEN conjunct1, THEN mp])
       (simp add: no_flag_no_cancel p e)
  then have all: "readdir_loop 2 gone_child_env ''d'' None [''.'', ''gone''] w0 =
      Some (0, w0\<lparr>polls := 2, trace := [Log ''cannot stat file'']\<rparr>)"
    by (simp add: w0_def ARCHIVE_OK_def del: readdir_loop.simps)
  have "add_directory_to_archive (Suc 2) gone_child_env ''x'' None w0 =
      Some (ARCHIVE_FATAL, emit [Log ''cannot open directory''] w0)"
    by (rule stat_failure_skips_child [where E = gone_child_env and dir_path = "''x''"
      and parent_path = None and depth = 2 and w = w0 and d_name = "''gone''" and rest = "[]"
      and names = "[]", THEN conjunct2, THEN conjunct2, THEN mp]) (rule e(3))
  then have fatal: "add_directory_to_archive 3 gone_child_env ''x'' None w0 =
      Some (- 30, w0\<lparr>trace := [Log ''cannot open directory'']\<rparr>)"
    by (simp add: emit_def w0_def ARCHIVE_FATAL_def del: add_directory_to_archive.simps)
  have s: "readdir_loop 2 gone_child_env ''d'' None [''b'']
             (emit [Log ''cannot stat file''] (poll (poll (poll w0)))) =
     Some (0, w0\<lparr>polls := 4, hdr_calls := 1, data_calls := 1,
                trace := [Log ''cannot stat file'', WriteHeader (file_entry ''b'' reg_stat),
                          WriteData ''hi'']\<rparr>)"
    by (simp add: e c snprintf_512_def poll_def emit_def w0_def
      archive_path_of_def reg_stat_def S_ISREG_def S_ISDIR_def fread_chunks_short
      archive_write_header_def archive_write_data_def file_entry_def archive_codes)
  have three: "(3::nat) = Suc 2" by simp
  have a1: "add_directory_to_archive (Suc 2) gone_child_env ''d'' None w0 =
          readdir_loop 2 gone_child_env ''d'' None [''.'', ''..'', ''gone'', ''b''] w0"
    by (subst add_directory_to_archive.simps) (simp add: e del: readdir_loop.simps)
  have a2: "readdir_loop 2 gone_child_env ''d'' None [''.'', ''..'', ''gone'', ''b''] w0 =
          readdir_loop 2 gone_child_env ''d'' None [''..'', ''gone'', ''b''] (poll w0)"
    by (subst readdir_loop.simps) (simp add: c del: readdir_loop.simps)
  have a3: "readdir_loop 2 gone_child_env ''d'' None [''..'', ''gone'', ''b''] (poll w0) =
          readdir_loop 2 gone_child_env ''d'' None [''gone'', ''b''] (poll (poll w0))"
    by (subst readdir_loop.simps) (simp add: c del: readdir_loop.simps)
  have walk: "add_directory_to_archive 3 gone_child_env ''d'' None w0 =
     Some (0, w0\<lparr>polls := 4, hdr_calls := 1, data_calls := 1,
                trace := [Log ''cannot stat file'', WriteHeader (file_entry ''b'' reg_stat),
                          WriteData ''hi'']\<rparr>)"
    unfolding three a1 a2 a3 skip s by (rule refl)
  from walk all fatal show ?thesis by blast
qed

section \<open>The working directory and the sessions of an extraction\<close>

lemma extends_refl: "extends w w"
  by (simp add: extends_def)

lemma extends_emit: "extends w v \<Longrightarrow> extends w (emit evs v)"
  by (auto simp: extends_def emit_def)

lemma extends_poll: "extends w v \<Longrightarrow> extends w (poll v)"
  by (auto simp: extends_def poll_def)

lemma extends_write_header:
  "archive_write_header E e v = (r, v') \<Longrightarrow> extends w v \<Longrightarrow> extends w v'"
  by (auto simp: extends_def archive_write_header_def emit_def)

lemma extends_copy_data:
  "copy_data E bs v = (r, left, v') \<Longrightarrow> extends w v \<Longrightarrow> extends w v'"
proof (induction bs arbitrary: v)
  case Nil
  then show ?case by (auto split: if_splits intro: extends_emit extends_poll)
next
  case (Cons b bs)
  have 1: "extends w (snd (archive_write_data_block E (buff b) (offset b) (poll v)))"
    using Cons.prems(2) by (auto simp: extends_def archive_write_data_block_def emit_def poll_def)
  show ?case
    using Cons.prems Cons.IH 1
    by (auto split: if_splits prod.splits intro: extends_emit extends_poll)
qed

lemma extends_extract_loop:
  "extract_loop E password hs v = (r, v') \<Longrightarrow> extends w v \<Longrightarrow> extends w v'"
proof (induction hs arbitrary: v)
  case Nil
  then show ?case by (auto split: if_splits intro: extends_emit extends_poll)
next
  case (Cons h rest)
  show ?case
    using Cons.prems Cons.IH
    by (auto split: if_splits prod.splits
        intro: extends_emit extends_poll
        dest!: extends_write_header [where w = w] extends_copy_data [where w = w])
qed

text \<open>
  C7, as the code has it. Let a run of \<^verbatim>\<open>extract_archive\<close> find the flag clear at entry,
  so that it creates the reader. On each of its exits the sessions that were created are
  closed and then freed, as the last effects of the run: the reader alone when the
  password is refused (the disk writer does not exist yet); the reader and then the disk
  writer when the archive cannot be opened, when \<^verbatim>\<open>getcwd\<close> fails and when \<^verbatim>\<open>chdir\<close> to
  the destination fails, and on these four exits no \<^verbatim>\<open>chdir\<close> back is made. When the run
  has changed into the destination, then, whatever the entry loop does and returns, the
  run ends with \<^verbatim>\<open>chdir\<close> back to the directory it started in, close and free of the
  reader, close and free of the disk writer; the loop itself changes no directory, and
  the status of the \<^verbatim>\<open>chdir\<close> back is dropped (line 298), so the working directory at exit
  is the one at entry when that call succeeds, and the destination when it fails.
\<close>

theorem sessions_released_and_chdir_back:
  assumes "\<not> cancel_set E w"
  shows "(password \<noteq> None \<and> read_add_passphrase_status E \<noteq> ARCHIVE_OK \<longrightarrow>
            extract_archive E archive_path destination_path password w =
              (ERROR_WRONG_PASSWORD,
               emit (reader_setup password
                     @ [Log ''setting the password failed'', ReadClose, ReadFree]) (poll w)))
       \<and> ((password \<noteq> None \<longrightarrow> read_add_passphrase_status E = ARCHIVE_OK)
            \<and> read_open_status E archive_path \<noteq> ARCHIVE_OK \<longrightarrow>
            extract_archive E archive_path destination_path password w =
              (ERROR_OPEN_FILE_FAILED,
               emit (reader_setup password @ disk_setup archive_path
                     @ [Log ''cannot open archive'', ReadClose, ReadFree, WriteClose, WriteFree])
                 (poll w)))
       \<and> ((password \<noteq> None \<longrightarrow> read_add_passphrase_status E = ARCHIVE_OK)
            \<and> read_open_status E archive_path = ARCHIVE_OK \<and> \<not> getcwd_ok E \<longrightarrow>
            extract_archive E archive_path destination_path password w =
              (ERROR_EXTRACT_FAILED,
               emit (reader_setup password @ disk_setup archive_path
                     @ destination_setup E destination_path
                     @ [Log ''getcwd failed'', ReadClose, ReadFree, WriteClose, WriteFree])
                 (poll w)))
       \<and> ((password \<noteq> None \<longrightarrow> read_add_passphrase_status E = ARCHIVE_OK)
            \<and> read_open_status E archive_path = ARCHIVE_OK \<and> getcwd_ok E
            \<and> chdir_status E destination_path \<noteq> 0 \<longrightarrow>
            extract_archive E archive_path destination_path password w =
              (ERROR_EXTRACT_FAILED,
               emit (reader_setup password @ disk_setup archive_path
                     @ destination_setup E destination_path
                     @ [Chdir destination_path, Log ''cannot change to destination'',
                        ReadClose, ReadFree, WriteClose, WriteFree])
                 (poll w)))
       \<and> ((password \<noteq> None \<longrightarrow> read_add_passphrase_status E = ARCHIVE_OK)
            \<and> read_open_status E archive_path = ARCHIVE_OK \<and> getcwd_ok E
            \<and> chdir_status E destination_path = 0 \<longrightarrow>
            (\<exists>r v evs.
               extract_loop E password (archive_contents E archive_path)
                 (emit (reader_setup password @ disk_setup archive_path
                        @ destination_setup E destination_path @ [Chdir destination_path])
                    ((poll w)\<lparr>cwd := destination_path\<rparr>)) = (r, v)
               \<and> trace v = trace w @ reader_setup password @ disk_setup archive_path
                             @ destination_setup E destination_path @ [Chdir destination_path]
                             @ evs
               \<and> cwd v = destination_path
               \<and> extract_archive E archive_path destination_path password w =
                   (r, v\<lparr>cwd := (if chdir_status E (cwd w) = 0 then cwd w else destination_path),
                         trace := trace v
                                  @ [Chdir (cwd w), ReadClose, ReadFree, WriteClose, WriteFree]\<rparr>)))"
proof (intro conjI impI)
  assume "password \<noteq> None \<and> read_add_passphrase_status E \<noteq> ARCHIVE_OK"
  then show "extract_archive E archive_path destination_path password w =
              (ERROR_WRONG_PASSWORD,
               emit (reader_setup password
                     @ [Log ''setting the password failed'', ReadClose, ReadFree]) (poll w))"
    using assms
    by (auto simp: extract_archive_def cleanup_extract_def reader_setup_def emit_def)
next
  assume "(password \<noteq> None \<longrightarrow> read_add_passphrase_status E = ARCHIVE_OK)
            \<and> read_open_status E archive_path \<noteq> ARCHIVE_OK"
  then show "extract_archive E archive_path destination_path password w =
              (ERROR_OPEN_FILE_FAILED,
               emit (reader_setup password @ disk_setup archive_path
                     @ [Log ''cannot open archive'', ReadClose, ReadFree, WriteClose, WriteFree])
                 (poll w))"
    using assms
    by (cases password)
       (simp_all add: extract_archive_def extract_opened_def cleanup_extract_def Let_def
          reader_setup_def disk_setup_def emit_def)
next
  assume "(password \<noteq> None \<longrightarrow> read_add_passphrase_status E = ARCHIVE_OK)
            \<and> read_open_status E archive_path = ARCHIVE_OK \<and> \<not> getcwd_ok E"
  then show "extract_archive E archive_path destination_path password w =
              (ERROR_EXTRACT_FAILED,
               emit (reader_setup password @ disk_setup archive_path
                     @ destination_setup E destination_path
                     @ [Log ''getcwd failed'', ReadClose, ReadFree, WriteClose, WriteFree])
                 (poll w))"
    using assms
    by (cases password)
       (simp_all add: extract_archive_def extract_opened_def cleanup_extract_def Let_def
          reader_setup_def disk_setup_def destination_setup_def emit_def)
next
  assume "(password \<noteq> None \<longrightarrow> read_add_passphrase_status E = ARCHIVE_OK)
            \<and> read_open_status E archive_path = ARCHIVE_OK \<and> getcwd_ok E
            \<and> chdir_status E destination_path \<noteq> 0"
  then show "extract_archive E archive_path destination_path password w =
              (ERROR_EXTRACT_FAILED,
               emit (reader_setup password @ disk_setup archive_path
                     @ destination_setup E destination_path
                     @ [Chdir destination_path, Log ''cannot change to destination'',
                        ReadClose, ReadFree, WriteClose, WriteFree])
                 (poll w))"
    using assms
    by (cases password)
       (simp_all add: extract_archive_def extract_opened_def cleanup_extract_def Let_def chdir_def
          reader_setup_def disk_setup_def destination_setup_def emit_def)
next
  assume a: "(password \<noteq> None \<longrightarrow> read_add_passphrase_status E = ARCHIVE_OK)
            \<and> read_open_status E archive_path = ARCHIVE_OK \<and> getcwd_ok E
            \<and> chdir_status E destination_path = 0"
  define u where "u = at_loop E archive_path destination_path password w"
  define res where "res = extract_loop E password (archive_contents E archive_path) u"
  have u: "u = emit (reader_setup password @ disk_setup archive_path
                     @ destination_setup E destination_path @ [Chdir destination_path])
                 ((poll w)\<lparr>cwd := destination_path\<rparr>)"
    by (simp add: u_def at_loop_def reader_setup_def disk_setup_def destination_setup_def)
  have run: "extract_archive E archive_path destination_path password w =
               (fst res, cleanup_extract E True (cwd w) True True (snd res))"
    unfolding res_def u_def
    using assms a by (intro extract_archive_from_loop) simp_all
  have tu: "trace u = trace w @ reader_setup password @ disk_setup archive_path
                        @ destination_setup E destination_path @ [Chdir destination_path]"
    "cwd u = destination_path"
    by (simp_all add: u emit_def poll_def)
  have "extends u (snd res)"
    using extends_extract_loop [of E password "archive_contents E archive_path" u
        "fst res" "snd res" u]
    by (simp add: res_def extends_refl)
  then obtain evs where evs: "trace (snd res) = trace u @ evs" and c: "cwd (snd res) = cwd u"
    by (auto simp: extends_def)
  have 1: "extract_loop E password (archive_contents E archive_path) u = (fst res, snd res)"
    by (simp add: res_def)
  have 2: "trace (snd res) = trace w @ reader_setup password @ disk_setup archive_path
                             @ destination_setup E destination_path @ [Chdir destination_path]
                             @ evs"
    by (simp add: evs tu)
  have 3: "cwd (snd res) = destination_path"
    by (simp add: c tu)
  have 4: "extract_archive E archive_path destination_path password w =
             (fst res,
              (snd res)\<lparr>cwd := (if chdir_status E (cwd w) = 0 then cwd w else destination_path),
                        trace := trace (snd res)
                                 @ [Chdir (cwd w), ReadClose, ReadFree, WriteClose, WriteFree]\<rparr>)"
    using 3 by (simp add: run cleanup_extract_def chdir_def emit_def)
  from 1 2 3 4 show "\<exists>r v evs.
               extract_loop E password (archive_contents E archive_path)
                 (emit (reader_setup password @ disk_setup archive_path
                        @ destination_setup E destination_path @ [Chdir destination_path])
                    ((poll w)\<lparr>cwd := destination_path\<rparr>)) = (r, v)
               \<and> trace v = trace w @ reader_setup password @ disk_setup archive_path
                             @ destination_setup E destination_path @ [Chdir destination_path]
                             @ evs
               \<and> cwd v = destination_path
               \<and> extract_archive E archive_path destination_path password w =
                   (r, v\<lparr>cwd := (if chdir_status E (cwd w) = 0 then cwd w else destination_path),
                         trace := trace v
                                  @ [Chdir (cwd w), ReadClose, ReadFree, WriteClose, WriteFree]\<rparr>)"
    unfolding u [symmetric] by blast
qed

theorem sessions_released_and_chdir_back_witness:
  "extract_archive bad_passphrase_env ''a.zip'' ''out'' (Some ''pw'') w0 =
     (- 7, w0\<lparr>polls := 1,
              trace := [ReadNew, ReadSupportFormatAll, ReadSupportFilterAll,
                        ReadAddPassphrase ''pw'', Log ''setting the password failed'',
                        ReadClose, ReadFree]\<rparr>)
   \<and> extract_archive unopenable_env ''a.zip'' ''out'' None w0 =
     (- 2, w0\<lparr>polls := 1,
              trace := reader_setup None @ disk_setup ''a.zip''
                       @ [Log ''cannot open archive'', ReadClose, ReadFree,
                          WriteClose, WriteFree]\<rparr>)
   \<and> extract_archive no_getcwd_env ''a.zip'' ''out'' None w0 =
     (- 4, w0\<lparr>polls := 1,
              trace := reader_setup None @ disk_setup ''a.zip''
                       @ [Mkdir ''out'' 493, Log ''getcwd failed'', ReadClose, ReadFree,
                          WriteClose, WriteFree]\<rparr>)
   \<and> extract_archive no_chdir_env ''a.zip'' ''out'' None w0 =
     (- 4, w0\<lparr>polls := 1,
              trace := reader_setup None @ disk_setup ''a.zip''
                       @ [Mkdir ''out'' 493, Chdir ''out'', Log ''cannot change to destination'',
                          ReadClose, ReadFree, WriteClose, WriteFree]\<rparr>)
   \<and> (\<exists>evs. trace (snd (extract_archive read_fail_env ''a.zip'' ''out'' None w0)) =
              reader_setup None @ disk_setup ''a.zip'' @ [Mkdir ''out'' 493, Chdir ''out''] @ evs
                @ [Chdir ''/home'', ReadClose, ReadFree, WriteClose, WriteFree])
   \<and> cwd (snd (extract_archive read_fail_env ''a.zip'' ''out'' None w0)) = ''/home''"
proof -
  have nc: "\<not> cancel_set bad_passphrase_env w0" "\<not> cancel_set unopenable_env w0"
    "\<not> cancel_set no_getcwd_env w0" "\<not> cancel_set no_chdir_env w0"
    "\<not> cancel_set read_fail_env w0"
    by (simp_all add: cancel_set_def flag_at_def bad_passphrase_env_def unopenable_env_def
        no_getcwd_env_def no_chdir_env_def read_fail_env_def env0_def)
  have p: "(Some ''pw'' :: string option) \<noteq> None
             \<and> read_add_passphrase_status bad_passphrase_env \<noteq> ARCHIVE_OK"
    by (simp add: bad_passphrase_env_def env0_def ARCHIVE_OK_def)
  have o: "((None :: string option) \<noteq> None \<longrightarrow>
              read_add_passphrase_status unopenable_env = ARCHIVE_OK)
           \<and> read_open_status unopenable_env ''a.zip'' \<noteq> ARCHIVE_OK"
    by (simp add: unopenable_env_def env0_def ARCHIVE_OK_def)
  have g: "((None :: string option) \<noteq> None \<longrightarrow>
              read_add_passphrase_status no_getcwd_env = ARCHIVE_OK)
           \<and> read_open_status no_getcwd_env ''a.zip'' = ARCHIVE_OK \<and> \<not> getcwd_ok no_getcwd_env"
    by (simp add: no_getcwd_env_def env0_def ARCHIVE_OK_def)
  have c: "((None :: string option) \<noteq> None \<longrightarrow>
              read_add_passphrase_status no_chdir_env = ARCHIVE_OK)
           \<and> read_open_status no_chdir_env ''a.zip'' = ARCHIVE_OK \<and> getcwd_ok no_chdir_env
           \<and> chdir_status no_chdir_env ''out'' \<noteq> 0"
    by (simp add: no_chdir_env_def env0_def ARCHIVE_OK_def)
  have l: "((None :: string option) \<noteq> None \<longrightarrow>
              read_add_passphrase_status read_fail_env = ARCHIVE_OK)
           \<and> read_open_status read_fail_env ''a.zip'' = ARCHIVE_OK \<and> getcwd_ok read_fail_env
           \<and> chdir_status read_fail_env ''out'' = 0"
    by (simp add: read_fail_env_def env0_def ARCHIVE_OK_def)
  have d: "destination_setup no_getcwd_env ''out'' = [Mkdir ''out'' 493]"
    "destination_setup no_chdir_env ''out'' = [Mkdir ''out'' 493]"
    "destination_setup read_fail_env ''out'' = [Mkdir ''out'' 493]"
    "chdir_status read_fail_env p = 0" "cwd w0 = ''/home''" "trace w0 = []" for p
    by (simp_all add: destination_setup_def no_getcwd_env_def no_chdir_env_def read_fail_env_def
        env0_def w0_def)
  have e: "emit evs (poll w0) = w0\<lparr>polls := 1, trace := evs\<rparr>" for evs
    by (simp add: emit_def poll_def w0_def)
  have k: "ERROR_WRONG_PASSWORD = - 7" "ERROR_OPEN_FILE_FAILED = - 2" "ERROR_EXTRACT_FAILED = - 4"
    by (simp_all add: wrapper_codes)
  have 1: "extract_archive bad_passphrase_env ''a.zip'' ''out'' (Some ''pw'') w0 =
             (ERROR_WRONG_PASSWORD,
               emit (reader_setup (Some ''pw'')
                     @ [Log ''setting the password failed'', ReadClose, ReadFree]) (poll w0))"
    using sessions_released_and_chdir_back [OF nc(1), where password = "Some ''pw''"
        and archive_path = "''a.zip''" and destination_path = "''out''"] p
    by blast
  have 2: "extract_archive unopenable_env ''a.zip'' ''out'' None w0 =
              (ERROR_OPEN_FILE_FAILED,
               emit (reader_setup None @ disk_setup ''a.zip''
                     @ [Log ''cannot open archive'', ReadClose, ReadFree, WriteClose, WriteFree])
                 (poll w0))"
    using sessions_released_and_chdir_back [OF nc(2), where password = None
        and archive_path = "''a.zip''" and destination_path = "''out''"] o
    by blast
  have 3: "extract_archive no_getcwd_env ''a.zip'' ''out'' None w0 =
              (ERROR_EXTRACT_FAILED,
               emit (reader_setup None @ disk_setup ''a.zip''
                     @ destination_setup no_getcwd_env ''out''
                     @ [Log ''getcwd failed'', ReadClose, ReadFree, WriteClose, WriteFree])
                 (poll w0))"
    using sessions_released_and_chdir_back [OF nc(3), where password = None
        and archive_path = "''a.zip''" and destination_path = "''out''"] g
    by blast
  have 4: "extract_archive no_chdir_env ''a.zip'' ''out'' None w0 =
              (ERROR_EXTRACT_FAILED,
               emit (reader_setup None @ disk_setup ''a.zip''
                     @ destination_setup no_chdir_env ''out''
                     @ [Chdir ''out'', Log ''cannot change to destination'',
                        ReadClose, ReadFree, WriteClose, WriteFree])
                 (poll w0))"
    using sessions_released_and_chdir_back [OF nc(4), where password = None
        and archive_path = "''a.zip''" and destination_path = "''out''"] c
    by blast
  obtain r v evs where 5:
    "trace v = trace w0 @ reader_setup None @ disk_setup ''a.zip''
                 @ destination_setup read_fail_env ''out'' @ [Chdir ''out''] @ evs"
    "extract_archive read_fail_env ''a.zip'' ''out'' None w0 =
       (r, v\<lparr>cwd := (if chdir_status read_fail_env (cwd w0) = 0 then cwd w0 else ''out''),
             trace := trace v @ [Chdir (cwd w0), ReadClose, ReadFree, WriteClose, WriteFree]\<rparr>)"
    using sessions_released_and_chdir_back [OF nc(5), where password = None
        and archive_path = "''a.zip''" and destination_path = "''out''"] l
    by blast
  have 6: "trace (snd (extract_archive read_fail_env ''a.zip'' ''out'' None w0)) =
              reader_setup None @ disk_setup ''a.zip'' @ [Mkdir ''out'' 493, Chdir ''out''] @ evs
                @ [Chdir ''/home'', ReadClose, ReadFree, WriteClose, WriteFree]"
    "cwd (snd (extract_archive read_fail_env ''a.zip'' ''out'' None w0)) = ''/home''"
    unfolding 5(2) by (simp_all add: 5(1) d)
  have 7: "reader_setup (Some ''pw'') @ [Log ''setting the password failed'', ReadClose, ReadFree] =
             [ReadNew, ReadSupportFormatAll, ReadSupportFilterAll,
              ReadAddPassphrase ''pw'', Log ''setting the password failed'', ReadClose, ReadFree]"
    by (simp add: reader_setup_def)
  have 8: "[Mkdir ''out'' 493] @ xs = Mkdir ''out'' 493 # xs" for xs
    by simp
  from 1 [unfolded e k 7] 2 [unfolded e k] 3 [unfolded e k d 8] 4 [unfolded e k d 8] 6
  show ?thesis by blast
qed

text \<open>
  As the specification words it, C7 does not hold: with a \<^verbatim>\<open>chdir\<close> into the destination
  that succeeds and a \<^verbatim>\<open>chdir\<close> back that fails, \<^verbatim>\<open>extract_archive\<close> changes the working
  directory to the destination, makes the call back to \<^verbatim>\<open>/home\<close>, drops its status, and
  returns success with the working directory still the destination.
\<close>

theorem working_directory_counterexample:
  "cwd w0 = ''/home''
   \<and> chdir_status no_return_env ''out'' = 0
   \<and> chdir_status no_return_env ''/home'' = - 1
   \<and> extract_archive no_return_env ''a.zip'' ''out'' None w0 =
       (SUCCESS,
        w0\<lparr>polls := 2, cwd := ''out'',
           trace := reader_setup None @ disk_setup ''a.zip'' @ [Mkdir ''out'' 493, Chdir ''out'']
                    @ [Chdir ''/home'', ReadClose, ReadFree, WriteClose, WriteFree]\<rparr>)
   \<and> ''out'' \<noteq> ''/home''"
  by (simp add: no_return_env_def env0_def w0_def extract_archive_def extract_opened_def
      cleanup_extract_def chdir_def cancel_set_def flag_at_def poll_def emit_def
      reader_setup_def disk_setup_def archive_codes wrapper_codes)

section \<open>Formats outside the table\<close>

text \<open>
  C8, as the code has it. When the flag is null or reads clear at entry, the source
  exists and the format selector is outside 1..9, \<^verbatim>\<open>compress_files\<close> returns
  \<^verbatim>\<open>ERROR_UNSUPPORTED_FORMAT\<close>, which is -8. It has then created a write session, logged
  the format, closed and freed the session and done nothing else: the archive file was
  never opened for writing.
\<close>

theorem unsupported_format:
  assumes "\<not> cancel_set E w" and "stat_fs E source_path = Some st"
    and "format < 1 \<or> 9 < format"
  shows "compress_files depth E source_path archive_path format password w =
           Some (ERROR_UNSUPPORTED_FORMAT,
                 emit [WriteNew, Log ''unsupported format'', WriteClose, WriteFree] (poll w))
       \<and> ERROR_UNSUPPORTED_FORMAT = - 8"
proof -
  have "format_setup format = None"
    using assms(3) by (auto simp: format_setup_def)
  then show ?thesis
    using assms(1,2)
    by (simp add: compress_files_def cleanup_compress_def emit_def ERROR_UNSUPPORTED_FORMAT_def)
qed

theorem unsupported_format_witness:
  "compress_files 1 src_env ''src'' ''a.bin'' 0 None w0 =
     Some (- 8, w0\<lparr>polls := 1,
                  trace := [WriteNew, Log ''unsupported format'', WriteClose, WriteFree]\<rparr>)
   \<and> compress_files 1 src_env ''src'' ''a.bin'' 100 (Some ''pw'') w0 =
     Some (- 8, w0\<lparr>polls := 1,
                  trace := [WriteNew, Log ''unsupported format'', WriteClose, WriteFree]\<rparr>)"
proof -
  have nc: "\<not> cancel_set src_env w0"
    by (simp add: cancel_set_def flag_at_def src_env_def env0_def)
  have st: "stat_fs src_env ''src'' = Some reg_stat"
    by (simp add: src_env_def env0_def)
  have w: "emit [WriteNew, Log ''unsupported format'', WriteClose, WriteFree] (poll w0) =
      w0\<lparr>polls := 1, trace := [WriteNew, Log ''unsupported format'', WriteClose, WriteFree]\<rparr>"
    by (simp add: emit_def poll_def w0_def)
  have c: "ERROR_UNSUPPORTED_FORMAT = - 8" by (simp add: wrapper_codes)
  have "compress_files 1 src_env ''src'' ''a.bin'' 0 None w0 =
          Some (ERROR_UNSUPPORTED_FORMAT,
                emit [WriteNew, Log ''unsupported format'', WriteClose, WriteFree] (poll w0))"
    using unsupported_format [OF nc st, of 0 1 "''a.bin''" None] by simp
  moreover have "compress_files 1 src_env ''src'' ''a.bin'' 100 (Some ''pw'') w0 =
          Some (ERROR_UNSUPPORTED_FORMAT,
                emit [WriteNew, Log ''unsupported format'', WriteClose, WriteFree] (poll w0))"
    using unsupported_format [OF nc st, of 100 1 "''a.bin''" "Some ''pw''"] by simp
  ultimately show ?thesis unfolding w c by blast
qed

text \<open>
  As the specification words it, C8 does not hold for a call whose flag is already set:
  the source exists and the format is outside 1..9, and the call returns
  \<^verbatim>\<open>ERROR_OPERATION_CANCELLED\<close>, as C1 says it must.
\<close>

theorem unsupported_format_counterexample:
  "stat_fs src_cancelled_env ''src'' = Some reg_stat
   \<and> compress_files 1 src_cancelled_env ''src'' ''a.bin'' 0 None w0 =
       Some (ERROR_OPERATION_CANCELLED,
             w0\<lparr>polls := 1, trace := [Log ''compress_files early cancel before start'']\<rparr>)
   \<and> ERROR_OPERATION_CANCELLED \<noteq> ERROR_UNSUPPORTED_FORMAT"
  by (simp add: src_cancelled_env_def src_env_def env0_def w0_def compress_files_def
      cancel_set_def flag_at_def poll_def emit_def wrapper_codes)

section \<open>A password for a format without encryption\<close>

lemma shift_emit: "emit evs (shift t w) = shift t (emit evs w)"
  by (simp add: shift_def emit_def)

lemma shift_poll: "poll (shift t w) = shift t (poll w)"
  by (simp add: shift_def poll_def)

lemma shift_cancel_set: "cancel_set E (shift t w) = cancel_set E w"
  by (simp add: shift_def cancel_set_def)

lemma shift_write_header:
  "archive_write_header E e (shift t w) =
     (fst (archive_write_header E e w), shift t (snd (archive_write_header E e w)))"
  by (simp add: shift_def archive_write_header_def emit_def)

lemma shift_write_data:
  "archive_write_data E c (shift t w) =
     (fst (archive_write_data E c w), shift t (snd (archive_write_data E c w)))"
  by (simp add: shift_def archive_write_data_def emit_def)

lemma shift_write_chunks: "write_chunks E cs (shift t w) = shift t (write_chunks E cs w)"
  by (induction cs arbitrary: w) (simp_all add: shift_write_data split: prod.splits)

lemma shift_write_file_chunks:
  "write_file_chunks E cs (shift t w) =
     (fst (write_file_chunks E cs w), shift t (snd (write_file_chunks E cs w)))"
  by (induction cs arbitrary: w)
     (simp_all add: shift_write_data shift_cancel_set shift_poll shift_emit split: prod.splits)

lemma shifted_simps [simp]:
  "shifted t None = None" "shifted t (Some (r, w)) = Some (r, shift t w)"
  by (simp_all add: shifted_def)

lemma shifted_Some: "shifted t (Some x) = Some (fst x, shift t (snd x))"
  by (cases x) simp

text \<open>The walk does not look at the events so far: an older history stays in front.\<close>

lemma shift_walker:
  "add_directory_to_archive depth E dir_path parent_path (shift t w) =
     shifted t (add_directory_to_archive depth E dir_path parent_path w)"
  "readdir_loop depth E dir_path parent_path names (shift t w) =
     shifted t (readdir_loop depth E dir_path parent_path names w)"
proof (induction depth E dir_path parent_path w and depth E dir_path parent_path names w
    rule: add_directory_to_archive_readdir_loop.induct)
  case (1 E dir_path parent_path w)
  then show ?case by simp
next
  case (2 depth E dir_path parent_path w)
  then show ?case by (cases "opendir_fs E dir_path") (simp_all add: shift_emit)
next
  case (3 depth E dir_path parent_path w)
  then show ?case by simp
next
  case (4 depth E dir_path parent_path d_name rest w)
  let ?full = "snprintf_512 (dir_path @ ''/'' @ d_name)"
  let ?ap = "archive_path_of parent_path d_name"
  show ?case
  proof (cases "cancel_set E w")
    case True
    then show ?thesis by (simp add: shift_cancel_set shift_poll shift_emit)
  next
    case nc: False
    show ?thesis
    proof (cases "d_name = ''.'' \<or> d_name = ''..''")
      case True
      then show ?thesis
        using nc "4.IH"(1) by (simp add: shift_cancel_set shift_poll)
    next
      case nd: False
      show ?thesis
      proof (cases "stat_fs E ?full")
        case None
        then show ?thesis
          using nc nd "4.IH"(2) by (simp add: shift_cancel_set shift_poll shift_emit)
      next
        case (Some st)
        show ?thesis
        proof (cases "S_ISDIR (st_mode st)")
          case dir: True
          obtain r w1 where h: "archive_write_header E (dir_entry ?ap st) (poll w) = (r, w1)"
            by (cases "archive_write_header E (dir_entry ?ap st) (poll w)") auto
          then have hs: "archive_write_header E (dir_entry ?ap st) (poll (shift t w)) =
                           (r, shift t w1)"
            by (simp add: shift_poll shift_write_header)
          show ?thesis
          proof (cases "r < ARCHIVE_OK")
            case True
            then show ?thesis
              using nc nd Some dir h hs by (simp add: shift_cancel_set shift_emit)
          next
            case ok: False
            have sub: "add_directory_to_archive depth E ?full (Some ?ap) (shift t w1) =
                         shifted t (add_directory_to_archive depth E ?full (Some ?ap) w1)"
              using "4.IH"(3) [OF nc _ Some dir h [symmetric] ok] nd by simp
            show ?thesis
            proof (cases "add_directory_to_archive depth E ?full (Some ?ap) w1")
              case None
              then show ?thesis
                using nc nd Some dir h hs ok sub by (simp add: shift_cancel_set)
            next
              case (Some res)
              obtain r' w2 where res: "res = (r', w2)" by (cases res) auto
              show ?thesis
              proof (cases "r' < ARCHIVE_OK")
                case True
                then show ?thesis
                  using nc nd \<open>stat_fs E ?full = Some st\<close> dir h hs ok sub Some res
                  by (simp add: shift_cancel_set)
              next
                case False
                have "readdir_loop depth E dir_path parent_path rest (shift t w2) =
                        shifted t (readdir_loop depth E dir_path parent_path rest w2)"
                  using "4.IH"(4) [OF nc _ \<open>stat_fs E ?full = Some st\<close> dir h [symmetric] ok
                      Some [unfolded res] _ False] nd
                  by simp
                then show ?thesis
                  using nc nd \<open>stat_fs E ?full = Some st\<close> dir h hs ok sub Some res False
                  by (simp add: shift_cancel_set)
              qed
            qed
          qed
        next
          case nodir: False
          show ?thesis
          proof (cases "S_ISREG (st_mode st)")
            case reg: True
            obtain r w1 where h: "archive_write_header E (file_entry ?ap st) (poll w) = (r, w1)"
              by (cases "archive_write_header E (file_entry ?ap st) (poll w)") auto
            then have hs: "archive_write_header E (file_entry ?ap st) (poll (shift t w)) =
                             (r, shift t w1)"
              by (simp add: shift_poll shift_write_header)
            show ?thesis
            proof (cases "r < ARCHIVE_OK")
              case True
              then show ?thesis
                using nc nd Some nodir reg h hs by (simp add: shift_cancel_set shift_emit)
            next
              case ok: False
              show ?thesis
              proof (cases "fopen_fs E ?full")
                case None
                then show ?thesis
                  using nc nd Some nodir reg h hs ok by (simp add: shift_cancel_set shift_emit)
              next
                case (Some content)
                have "readdir_loop depth E dir_path parent_path rest
                          (shift t (write_chunks E (fread_chunks content) w1)) =
                        shifted t (readdir_loop depth E dir_path parent_path rest
                          (write_chunks E (fread_chunks content) w1))"
                  using "4.IH"(5) [OF nc _ \<open>stat_fs E ?full = Some st\<close> nodir reg
                      h [symmetric] ok Some] nd
                  by simp
                then show ?thesis
                  using nc nd \<open>stat_fs E ?full = Some st\<close> nodir reg h hs ok Some
                  by (simp add: shift_cancel_set shift_write_chunks)
              qed
            qed
          next
            case False
            then show ?thesis
              using nc nd Some nodir "4.IH"(6) by (simp add: shift_cancel_set shift_poll)
          qed
        qed
      qed
    qed
  qed
qed

lemma shift_compress_source:
  "compress_source depth E source_path st (shift t w) =
     shifted t (compress_source depth E source_path st w)"
proof (cases "S_ISDIR (st_mode st)")
  case True
  then show ?thesis
    by (cases "add_directory_to_archive depth E source_path None w")
       (auto simp: compress_source_def shift_walker shift_emit)
next
  case nodir: False
  show ?thesis
  proof (cases "S_ISREG (st_mode st)")
    case True
    obtain r w1 where h:
      "archive_write_header E (file_entry (base_filename source_path) st) w = (r, w1)"
      by (cases "archive_write_header E (file_entry (base_filename source_path) st) w") auto
    then have hs:
      "archive_write_header E (file_entry (base_filename source_path) st) (shift t w) =
         (r, shift t w1)"
      by (simp add: shift_write_header)
    show ?thesis
    proof (cases "fopen_fs E source_path")
      case None
      then show ?thesis
        using nodir True h hs by (simp add: compress_source_def shift_emit)
    next
      case (Some content)
      then show ?thesis
        using nodir True h hs
        by (simp add: compress_source_def shift_emit shift_write_file_chunks shifted_Some)
    qed
  next
    case False
    then show ?thesis using nodir by (simp add: compress_source_def shift_emit)
  qed
qed

lemma shift_cleanup_compress:
  "cleanup_compress a (shift t w) = shift t (cleanup_compress a w)"
  by (simp add: cleanup_compress_def shift_emit)

lemma without_warning_shift:
  "without_warning (shift (t @ [password_warning]) w) = without_warning (shift t w)"
  by (simp add: without_warning_def shift_def)

lemma unwarned_shifted:
  "unwarned (shifted (t @ [password_warning]) res) = unwarned (shifted t res)"
  by (cases res) (auto simp: unwarned_def without_warning_shift)

lemma trace_shifted:
  "shifted t res = Some (r, w') \<Longrightarrow> set t \<subseteq> set (trace w')"
  by (cases res) (auto simp: shift_def)

lemma finish_shifted: "finish (shifted t res) = shifted t (finish res)"
  by (cases res) (auto simp: finish_def shift_cleanup_compress)

lemma password_setup_no_encryption:
  "format \<noteq> 1 \<Longrightarrow> format \<noteq> 6 \<Longrightarrow>
     password_setup E format (Some p) v = (True, emit [password_warning] v)"
  by (simp add: password_setup_def)

lemma compress_files_opened:
  assumes "\<not> cancel_set E w" and "stat_fs E source_path = Some st"
    and "format_setup format = Some evs"
    and "password_setup E format password (emit (WriteNew # evs) (poll w)) = (True, w1)"
  shows "compress_files depth E source_path archive_path format password w =
           (if write_open_status E archive_path \<noteq> ARCHIVE_OK
            then Some (ERROR_CREATE_ARCHIVE_FAILED,
                       cleanup_compress True
                         (emit [WriteOpenFilename archive_path, Log ''cannot create archive''] w1))
            else finish (compress_source depth E source_path st
                           (emit [WriteOpenFilename archive_path] w1)))"
  using assms by (simp add: compress_files_def finish_def)

text \<open>
  C9, as the code has it. For a format selector other than 1 and 6 the password step
  registers nothing: it only logs the warning and goes on. The outcome of
  \<^verbatim>\<open>compress_files\<close> with a password is then the outcome without one, but for that
  line in the log: the same result, the same calls in the same order, and no result when
  the other has none. So the password never makes the call fail. The warning is in the
  log whenever the call gets as far as the password step, that is when the flag is clear
  at entry, the source exists and the selector is one of 2, 3, 4, 5, 7, 8, 9.
\<close>

theorem password_ignored_without_encryption:
  assumes "format \<noteq> 1" and "format \<noteq> 6"
  shows "password_setup E format (Some p) v = (True, emit [password_warning] v)
       \<and> unwarned (compress_files depth E source_path archive_path format (Some p) w) =
           unwarned (compress_files depth E source_path archive_path format None w)
       \<and> (\<not> cancel_set E w \<and> stat_fs E source_path \<noteq> None \<and> 1 \<le> format \<and> format \<le> 9 \<longrightarrow>
            (\<forall>r w'. compress_files depth E source_path archive_path format (Some p) w =
                      Some (r, w')
               \<longrightarrow> password_warning \<in> set (trace w')))"
proof (intro conjI)
  show ps: "password_setup E format (Some p) v = (True, emit [password_warning] v)" for v
    using assms by (rule password_setup_no_encryption)
  have pn: "password_setup E format None v = (True, v)" for v
    by (simp add: password_setup_def)
  show "unwarned (compress_files depth E source_path archive_path format (Some p) w) =
        unwarned (compress_files depth E source_path archive_path format None w)"
  proof (cases "cancel_set E w \<or> stat_fs E source_path = None \<or> format_setup format = None")
    case True
    then show ?thesis
      by (cases "stat_fs E source_path") (auto simp: compress_files_def)
  next
    case False
    then obtain st evs where nc: "\<not> cancel_set E w" and st: "stat_fs E source_path = Some st"
      and fs: "format_setup format = Some evs" by auto
    define v0 where "v0 = emit (WriteNew # evs) (poll w)"
    define base where "base = emit [WriteOpenFilename archive_path] (v0\<lparr>trace := []\<rparr>)"
    define X where "X = finish (compress_source depth E source_path st base)"
    have a: "emit [WriteOpenFilename archive_path] (emit [password_warning] v0) =
               shift (trace v0 @ [password_warning]) base"
      by (simp add: base_def shift_def emit_def)
    have b: "emit [WriteOpenFilename archive_path] v0 = shift (trace v0) base"
      by (simp add: base_def shift_def emit_def)
    show ?thesis
    proof (cases "write_open_status E archive_path \<noteq> ARCHIVE_OK")
      case True
      then show ?thesis
        using compress_files_opened [OF nc st fs ps [of "emit (WriteNew # evs) (poll w)"]]
          compress_files_opened [OF nc st fs pn [of "emit (WriteNew # evs) (poll w)"]]
        by (simp add: unwarned_def without_warning_def cleanup_compress_def emit_def
            password_warning_def)
    next
      case False
      have "compress_files depth E source_path archive_path format (Some p) w =
              shifted (trace v0 @ [password_warning]) X"
        using compress_files_opened [OF nc st fs ps [of "emit (WriteNew # evs) (poll w)"]] False
        by (simp add: v0_def [symmetric] a shift_compress_source finish_shifted X_def)
      moreover have "compress_files depth E source_path archive_path format None w =
              shifted (trace v0) X"
        using compress_files_opened [OF nc st fs pn [of "emit (WriteNew # evs) (poll w)"]] False
        by (simp add: v0_def [symmetric] b shift_compress_source finish_shifted X_def)
      ultimately show ?thesis by (simp add: unwarned_shifted)
    qed
  qed
  show "\<not> cancel_set E w \<and> stat_fs E source_path \<noteq> None \<and> 1 \<le> format \<and> format \<le> 9 \<longrightarrow>
            (\<forall>r w'. compress_files depth E source_path archive_path format (Some p) w =
                      Some (r, w')
               \<longrightarrow> password_warning \<in> set (trace w'))"
  proof (intro impI allI, elim conjE)
    fix r w'
    assume nc: "\<not> cancel_set E w" and "stat_fs E source_path \<noteq> None"
      and f: "1 \<le> format" "format \<le> 9"
      and run: "compress_files depth E source_path archive_path format (Some p) w = Some (r, w')"
    then obtain st where st: "stat_fs E source_path = Some st" by auto
    from f have "format \<in> {1, 2, 3, 4, 5, 6, 7, 8, 9}" by auto
    then obtain evs where fs: "format_setup format = Some evs"
      by (auto simp: format_setup_def)
    define v0 where "v0 = emit (WriteNew # evs) (poll w)"
    define base where "base = emit [WriteOpenFilename archive_path] (v0\<lparr>trace := []\<rparr>)"
    define X where "X = finish (compress_source depth E source_path st base)"
    have a: "emit [WriteOpenFilename archive_path] (emit [password_warning] v0) =
               shift (trace v0 @ [password_warning]) base"
      by (simp add: base_def shift_def emit_def)
    show "password_warning \<in> set (trace w')"
    proof (cases "write_open_status E archive_path \<noteq> ARCHIVE_OK")
      case True
      then show ?thesis
        using compress_files_opened [OF nc st fs ps [of "emit (WriteNew # evs) (poll w)"]] run
        by (auto simp: cleanup_compress_def emit_def)
    next
      case False
      have "compress_files depth E source_path archive_path format (Some p) w =
              shifted (trace v0 @ [password_warning]) X"
        using compress_files_opened [OF nc st fs ps [of "emit (WriteNew # evs) (poll w)"]] False
        by (simp add: v0_def [symmetric] a shift_compress_source finish_shifted X_def)
      with run have "shifted (trace v0 @ [password_warning]) X = Some (r, w')" by simp
      from trace_shifted [OF this] show ?thesis by simp
    qed
  qed
qed

theorem password_ignored_without_encryption_witness:
  "password_setup src_env 2 (Some ''pw'') w0 = (True, emit [password_warning] w0)
   \<and> unwarned (compress_files 1 src_env ''src'' ''a.tar'' 2 (Some ''pw'') w0) =
       unwarned (compress_files 1 src_env ''src'' ''a.tar'' 2 None w0)
   \<and> compress_files 1 src_env ''src'' ''a.tar'' 2 (Some ''pw'') w0 =
       Some (0, w0\<lparr>polls := 2, hdr_calls := 1, data_calls := 1,
                  trace := [WriteNew, WriteSetFormat PaxRestricted, password_warning,
                            WriteOpenFilename ''a.tar'',
                            WriteHeader (file_entry ''src'' reg_stat),
                            WriteData ''hi'', WriteClose, WriteFree]\<rparr>)
   \<and> password_warning \<in> set (trace (w0\<lparr>polls := 2, hdr_calls := 1, data_calls := 1,
                  trace := [WriteNew, WriteSetFormat PaxRestricted, password_warning,
                            WriteOpenFilename ''a.tar'',
                            WriteHeader (file_entry ''src'' reg_stat),
                            WriteData ''hi'', WriteClose, WriteFree]\<rparr>))"
proof -
  let ?W = "w0\<lparr>polls := 2, hdr_calls := 1, data_calls := 1,
                  trace := [WriteNew, WriteSetFormat PaxRestricted, password_warning,
                            WriteOpenFilename ''a.tar'',
                            WriteHeader (file_entry ''src'' reg_stat),
                            WriteData ''hi'', WriteClose, WriteFree]\<rparr>"
  have f: "(2::int) \<noteq> 1" "(2::int) \<noteq> 6" by simp_all
  note t = password_ignored_without_encryption [OF f, where E = src_env and p = "''pw''"
      and v = w0 and w = w0 and depth = 1 and source_path = "''src''"
      and archive_path = "''a.tar''"]
  have nc: "\<not> cancel_set src_env w0"
    by (simp add: cancel_set_def flag_at_def src_env_def env0_def)
  have st: "stat_fs src_env ''src'' \<noteq> None"
    by (simp add: src_env_def env0_def)
  have run: "compress_files 1 src_env ''src'' ''a.tar'' 2 (Some ''pw'') w0 = Some (0, ?W)"
    by (simp add: src_env_def env0_def w0_def compress_files_def compress_source_def
      format_setup_def password_setup_def cleanup_compress_def cancel_set_def flag_at_def
      poll_def emit_def archive_write_header_def archive_write_data_def file_entry_def
      base_filename_def reg_stat_def S_ISDIR_def S_ISREG_def fread_chunks_short
      archive_codes wrapper_codes)
  have "password_warning \<in> set (trace ?W)"
    using t nc st run by auto
  with t run show ?thesis by blast
qed

text \<open>
  As the specification words it, C9 does not hold for a selector outside 1..9, which is
  other than 1 and 6: the call leaves at the format switch, before the password step,
  and no warning is logged.
\<close>

theorem password_ignored_counterexample:
  "compress_files 1 src_env ''src'' ''a.bin'' 0 (Some ''pw'') w0 =
     Some (ERROR_UNSUPPORTED_FORMAT,
           w0\<lparr>polls := 1,
              trace := [WriteNew, Log ''unsupported format'', WriteClose, WriteFree]\<rparr>)
   \<and> password_warning \<notin> set [WriteNew, Log ''unsupported format'', WriteClose, WriteFree]"
  by (simp add: src_env_def env0_def w0_def compress_files_def format_setup_def
      cleanup_compress_def cancel_set_def flag_at_def poll_def emit_def password_warning_def
      wrapper_codes)

section \<open>The status of the data writes of a compression\<close>

lemma cancel_set_data_status:
  "cancel_set (E\<lparr>write_data_status := f\<rparr>) w = cancel_set E w"
  by (simp add: cancel_set_def flag_at_def)

lemma write_header_data_status:
  "archive_write_header (E\<lparr>write_data_status := f\<rparr>) e w = archive_write_header E e w"
  by (simp add: archive_write_header_def)

lemma write_chunks_data_status:
  "write_chunks (E\<lparr>write_data_status := f\<rparr>) cs w = write_chunks E cs w"
  by (induction cs arbitrary: w) (simp_all add: archive_write_data_def)

lemma write_file_chunks_data_status:
  "write_file_chunks (E\<lparr>write_data_status := f\<rparr>) cs w = write_file_chunks E cs w"
  by (induction cs arbitrary: w) (simp_all add: archive_write_data_def cancel_set_data_status)

lemma walker_data_status:
  "add_directory_to_archive depth (E\<lparr>write_data_status := f\<rparr>) dir_path parent_path w =
     add_directory_to_archive depth E dir_path parent_path w"
  "readdir_loop depth (E\<lparr>write_data_status := f\<rparr>) dir_path parent_path names w =
     readdir_loop depth E dir_path parent_path names w"
proof (induction depth E dir_path parent_path w and depth E dir_path parent_path names w
    rule: add_directory_to_archive_readdir_loop.induct)
  case (1 E dir_path parent_path w)
  then show ?case by simp
next
  case (2 depth E dir_path parent_path w)
  then show ?case by (simp split: option.splits)
next
  case (3 depth E dir_path parent_path w)
  then show ?case by simp
next
  case (4 depth E dir_path parent_path d_name rest w)
  then show ?case
    by (simp add: cancel_set_data_status write_header_data_status write_chunks_data_status
        split: option.splits prod.splits)
qed

lemma compress_source_data_status:
  "compress_source depth (E\<lparr>write_data_status := f\<rparr>) source_path st w =
     compress_source depth E source_path st w"
  by (simp add: compress_source_def walker_data_status write_header_data_status
      write_file_chunks_data_status split: option.splits prod.splits)

lemma password_setup_data_status:
  "password_setup (E\<lparr>write_data_status := f\<rparr>) format password w =
     password_setup E format password w"
  by (simp add: password_setup_def split: option.splits)

lemma compress_files_data_status:
  "compress_files depth (E\<lparr>write_data_status := f\<rparr>) source_path archive_path format password w =
     compress_files depth E source_path archive_path format password w"
  by (simp add: compress_files_def compress_source_data_status password_setup_data_status
      cancel_set_data_status split: option.splits prod.splits bool.splits)

text \<open>
  C10, as the code has it. Neither content loop of a compression looks at what
  \<^verbatim>\<open>archive_write_data\<close> returns: whatever statuses the data writes return,
  \<^verbatim>\<open>compress_files\<close> makes the same calls and returns the same result. In particular a
  run that returns \<^verbatim>\<open>SUCCESS\<close> when every data write succeeds returns \<^verbatim>\<open>SUCCESS\<close> when some
  or all of them fail.
\<close>

theorem data_write_status_ignored:
  "compress_files depth (E\<lparr>write_data_status := f\<rparr>) source_path archive_path format password w =
     compress_files depth (E\<lparr>write_data_status := g\<rparr>) source_path archive_path format password w"
proof -
  have "compress_files depth (E\<lparr>write_data_status := f\<rparr>) source_path archive_path format
          password w =
        compress_files depth E source_path archive_path format password w"
    by (rule compress_files_data_status)
  also have "\<dots> = compress_files depth (E\<lparr>write_data_status := g\<rparr>) source_path archive_path
                     format password w"
    by (rule compress_files_data_status [symmetric])
  finally show ?thesis .
qed

theorem data_write_status_ignored_witness:
  "write_data_status src_bad_writes_env 0 = - 30
   \<and> compress_files 1 src_bad_writes_env ''src'' ''a.tar'' 2 None w0 =
       compress_files 1 src_env ''src'' ''a.tar'' 2 None w0
   \<and> compress_files 1 src_env ''src'' ''a.tar'' 2 None w0 =
       Some (SUCCESS, w0\<lparr>polls := 2, hdr_calls := 1, data_calls := 1,
                  trace := [WriteNew, WriteSetFormat PaxRestricted,
                            WriteOpenFilename ''a.tar'',
                            WriteHeader (file_entry ''src'' reg_stat),
                            WriteData ''hi'', WriteClose, WriteFree]\<rparr>)"
proof -
  have a: "src_env\<lparr>write_data_status := (\<lambda>n. - 30)\<rparr> = src_bad_writes_env"
    by (simp add: src_bad_writes_env_def)
  have b: "src_env\<lparr>write_data_status := write_data_status src_env\<rparr> = src_env"
    by simp
  have "compress_files 1 src_bad_writes_env ''src'' ''a.tar'' 2 None w0 =
       compress_files 1 src_env ''src'' ''a.tar'' 2 None w0"
    using data_write_status_ignored [where depth = 1 and E = src_env and f = "\<lambda>n. - 30"
        and source_path = "''src''" and archive_path = "''a.tar''" and format = 2
        and password = None and w = w0 and g = "write_data_status src_env"]
    unfolding a b .
  moreover have "write_data_status src_bad_writes_env 0 = - 30"
    by (simp add: src_bad_writes_env_def)
  moreover have "compress_files 1 src_env ''src'' ''a.tar'' 2 None w0 =
       Some (SUCCESS, w0\<lparr>polls := 2, hdr_calls := 1, data_calls := 1,
                  trace := [WriteNew, WriteSetFormat PaxRestricted,
                            WriteOpenFilename ''a.tar'',
                            WriteHeader (file_entry ''src'' reg_stat),
                            WriteData ''hi'', WriteClose, WriteFree]\<rparr>)"
    by (simp add: src_env_def env0_def w0_def compress_files_def compress_source_def
      format_setup_def password_setup_def cleanup_compress_def cancel_set_def flag_at_def
      poll_def emit_def archive_write_header_def archive_write_data_def file_entry_def
      base_filename_def reg_stat_def S_ISDIR_def S_ISREG_def fread_chunks_short
      archive_codes wrapper_codes)
  ultimately show ?thesis by blast
qed

text \<open>
  As the specification words it, C10 does not hold for a run in which something else
  goes wrong: here both header writes succeed, the one data write fails, the second file
  cannot be opened, and \<^verbatim>\<open>compress_files\<close> returns \<^verbatim>\<open>ERROR_COMPRESS_FAILED\<close>.
\<close>

theorem data_write_status_counterexample:
  "compress_files 3 locked_file_env ''d'' ''a.tar'' 2 None w0 =
     Some (ERROR_COMPRESS_FAILED,
           w0\<lparr>polls := 3, hdr_calls := 2, data_calls := 1,
              trace := [WriteNew, WriteSetFormat PaxRestricted, WriteOpenFilename ''a.tar'',
                        WriteHeader (file_entry ''a'' reg_stat), WriteData ''hi'',
                        WriteHeader (file_entry ''b'' reg_stat), Log ''cannot open file'',
                        Log ''adding the directory failed'', WriteClose, WriteFree]\<rparr>)
   \<and> write_header_status locked_file_env 0 = ARCHIVE_OK
   \<and> write_header_status locked_file_env 1 = ARCHIVE_OK
   \<and> write_data_status locked_file_env 0 < ARCHIVE_OK
   \<and> ERROR_COMPRESS_FAILED \<noteq> SUCCESS"
proof -
  have e: "cancel_flag locked_file_env = None"
    "stat_fs locked_file_env ''d'' = Some dir_stat"
    "opendir_fs locked_file_env ''d'' = Some [''a'', ''b'']"
    "stat_fs locked_file_env ''d/a'' = Some reg_stat"
    "stat_fs locked_file_env ''d/b'' = Some reg_stat"
    "fopen_fs locked_file_env ''d/a'' = Some ''hi''"
    "fopen_fs locked_file_env ''d/b'' = None"
    "write_header_status locked_file_env = (\<lambda>n. 0)"
    "write_data_status locked_file_env = (\<lambda>n. - 30)"
    "write_open_status locked_file_env = (\<lambda>p. 0)"
    by (simp_all add: locked_file_env_def env0_def)
  have c: "\<not> cancel_set locked_file_env w" for w
    by (simp add: cancel_set_def flag_at_def e)
  show ?thesis
    by (simp add: numeral_3_eq_3 e c w0_def compress_files_def compress_source_def
      format_setup_def password_setup_def cleanup_compress_def
      poll_def emit_def archive_write_header_def archive_write_data_def file_entry_def
      archive_path_of_def snprintf_512_def reg_stat_def dir_stat_def S_ISDIR_def S_ISREG_def
      fread_chunks_short archive_codes wrapper_codes)
qed

end
